theory Spec2Isabelle
  imports Complex_Main
begin

section \<open>Numbers: the values and the range of \<^verbatim>\<open>double\<close>\<close>

text \<open>
  The scalers compute on \<^verbatim>\<open>double\<close>. The model keeps what decides the control flow of
  the code and the kind of value it produces:
  \<^item> a division by zero does not fail, it yields an infinity or a NaN, and a NaN
    compares unequal to everything;
  \<^item> a sum, difference, product or quotient whose magnitude reaches
    \<open>2^1024 - 2^970\<close> (the least magnitude that rounds beyond the largest
    \<^verbatim>\<open>double\<close>) is an infinity;
  \<^item> a product or quotient whose magnitude is at most \<open>2^-1075\<close> (half the least
    positive \<^verbatim>\<open>double\<close>) is zero; sums and differences of \<^verbatim>\<open>double\<close>s never
    underflow.

  What is not modelled is the rounding of the significand: a finite result that neither
  overflows nor underflows is the exact real number. There is one zero, taken as
  positive (the zero divisors of the code are differences \<open>x - x\<close> of equal finite
  values, which are \<open>+0\<close>).
\<close>

datatype dbl = Fin real | PInf | NInf | NaN

definition dbl_overflow :: real where
  "dbl_overflow = 2 ^ 1024 - 2 ^ 970"

definition dbl_underflow :: real where
  "dbl_underflow = 1 / 2 ^ 1075"

definition dbl_min_normal :: real where
  "dbl_min_normal = 1 / 2 ^ 1022"

text \<open>The result of an addition or subtraction whose exact value is \<open>r\<close>.\<close>

definition overflow_dbl :: "real \<Rightarrow> dbl" where
  "overflow_dbl r =
     (if dbl_overflow \<le> r then PInf else if r \<le> - dbl_overflow then NInf else Fin r)"

text \<open>The result of a multiplication or division whose exact value is \<open>r\<close>.\<close>

definition round_dbl :: "real \<Rightarrow> dbl" where
  "round_dbl r = (if \<bar>r\<bar> \<le> dbl_underflow then Fin 0 else overflow_dbl r)"

instantiation dbl :: "{plus, minus, times, inverse}"
begin

fun plus_dbl :: "dbl \<Rightarrow> dbl \<Rightarrow> dbl" where
  "plus_dbl NaN _ = NaN"
| "plus_dbl _ NaN = NaN"
| "plus_dbl (Fin a) (Fin b) = overflow_dbl (a + b)"
| "plus_dbl PInf NInf = NaN"
| "plus_dbl NInf PInf = NaN"
| "plus_dbl PInf _ = PInf"
| "plus_dbl _ PInf = PInf"
| "plus_dbl NInf _ = NInf"
| "plus_dbl _ NInf = NInf"

fun minus_dbl :: "dbl \<Rightarrow> dbl \<Rightarrow> dbl" where
  "minus_dbl NaN _ = NaN"
| "minus_dbl _ NaN = NaN"
| "minus_dbl (Fin a) (Fin b) = overflow_dbl (a - b)"
| "minus_dbl PInf PInf = NaN"
| "minus_dbl NInf NInf = NaN"
| "minus_dbl PInf _ = PInf"
| "minus_dbl NInf _ = NInf"
| "minus_dbl _ PInf = NInf"
| "minus_dbl _ NInf = PInf"

fun times_dbl :: "dbl \<Rightarrow> dbl \<Rightarrow> dbl" where
  "times_dbl NaN _ = NaN"
| "times_dbl _ NaN = NaN"
| "times_dbl (Fin a) (Fin b) = round_dbl (a * b)"
| "times_dbl PInf (Fin b) = (if b = 0 then NaN else if 0 < b then PInf else NInf)"
| "times_dbl NInf (Fin b) = (if b = 0 then NaN else if 0 < b then NInf else PInf)"
| "times_dbl (Fin a) PInf = (if a = 0 then NaN else if 0 < a then PInf else NInf)"
| "times_dbl (Fin a) NInf = (if a = 0 then NaN else if 0 < a then NInf else PInf)"
| "times_dbl PInf PInf = PInf"
| "times_dbl PInf NInf = NInf"
| "times_dbl NInf PInf = NInf"
| "times_dbl NInf NInf = PInf"

fun divide_dbl :: "dbl \<Rightarrow> dbl \<Rightarrow> dbl" where
  "divide_dbl NaN _ = NaN"
| "divide_dbl _ NaN = NaN"
| "divide_dbl (Fin a) (Fin b) =
     (if b = 0 then (if a = 0 then NaN else if 0 < a then PInf else NInf)
      else round_dbl (a / b))"
| "divide_dbl (Fin a) PInf = Fin 0"
| "divide_dbl (Fin a) NInf = Fin 0"
| "divide_dbl PInf (Fin b) = (if 0 \<le> b then PInf else NInf)"
| "divide_dbl NInf (Fin b) = (if 0 \<le> b then NInf else PInf)"
| "divide_dbl PInf PInf = NaN"
| "divide_dbl PInf NInf = NaN"
| "divide_dbl NInf PInf = NaN"
| "divide_dbl NInf NInf = NaN"

definition inverse_dbl :: "dbl \<Rightarrow> dbl" where
  "inverse_dbl x = divide (Fin 1) x"

instance ..

end

text \<open>The comparisons of \<^verbatim>\<open>double\<close>: \<^verbatim>\<open>==\<close>, \<^verbatim>\<open><\<close> and \<^verbatim>\<open><=\<close>. Each is false on a NaN.\<close>

fun deq :: "dbl \<Rightarrow> dbl \<Rightarrow> bool" where
  "deq NaN _ = False"
| "deq _ NaN = False"
| "deq (Fin a) (Fin b) = (a = b)"
| "deq PInf PInf = True"
| "deq NInf NInf = True"
| "deq _ _ = False"

fun dlt :: "dbl \<Rightarrow> dbl \<Rightarrow> bool" where
  "dlt NaN _ = False"
| "dlt _ NaN = False"
| "dlt (Fin a) (Fin b) = (a < b)"
| "dlt _ NInf = False"
| "dlt PInf _ = False"
| "dlt NInf _ = True"
| "dlt _ PInf = True"


fun is_finite :: "dbl \<Rightarrow> bool" where
  "is_finite (Fin a) = True"
| "is_finite _ = False"

section \<open>Vectors and matrices\<close>

text \<open>
  A dense matrix carries its dimensions and its entries, here row by row (a row is a
  feature, a column an observation). A column vector is the list of its entries.
\<close>

type_synonym colvec = "dbl list"

record mat =
  n_rows :: nat
  n_cols :: nat
  rows :: "dbl list list"

definition wf_mat :: "mat \<Rightarrow> bool" where
  "wf_mat X = (length (rows X) = n_rows X \<and> list_all (\<lambda>r. length r = n_cols X) (rows X))"

text \<open>
  Element access \<^verbatim>\<open>X(i, j)\<close>, for reading and for writing. The code uses it only under
  loop bounds that are the dimensions of the matrix itself, so on a well-formed matrix
  the indices are in range.
\<close>

definition mat_at :: "mat \<Rightarrow> nat \<Rightarrow> nat \<Rightarrow> dbl" where
  "mat_at X i j = rows X ! i ! j"

definition mat_set :: "mat \<Rightarrow> nat \<Rightarrow> nat \<Rightarrow> dbl \<Rightarrow> mat" where
  "mat_set X i j v = X\<lparr>rows := (rows X)[i := (rows X ! i)[j := v]]\<rparr>"

text \<open>
  \<^verbatim>\<open>output.copy_size(input)\<close> gives the output the dimensions of the input. What the
  entries hold afterwards is left open by the library (a resized matrix is not
  initialised, a matrix that already has the size keeps its entries); the model writes
  NaN in their place. Both transforms overwrite every entry before they return, so
  nothing of what the output held before the call shows in a result, and the methods of
  the model do not take it as an argument.
\<close>

definition copy_size :: "mat \<Rightarrow> mat" where
  "copy_size A = \<lparr>n_rows = n_rows A, n_cols = n_cols A,
                  rows = replicate (n_rows A) (replicate (n_cols A) NaN)\<rparr>"

text \<open>
  Modelled from the spec: the row-wise reductions \<^verbatim>\<open>arma::min(X, 1)\<close>,
  \<^verbatim>\<open>arma::max(X, 1)\<close> and \<^verbatim>\<open>arma::mean(X, 1)\<close> belong to the matrix library, which is
  not part of the sources. The spec calls them the row extrema and the average of the
  row. The extrema are found by a scan with \<^verbatim>\<open><\<close> and \<^verbatim>\<open>>\<close> that starts at the first
  entry; the average is the sum of the row divided by the number of columns. The library
  recomputes an average that is not finite by a running mean; that path is not
  modelled, and the statements below that depend on the value of a mean bound the
  entries so that no sum overflows. On a matrix with no column each reduction returns
  the empty vector.
\<close>

fun row_min :: "dbl list \<Rightarrow> dbl" where
  "row_min [] = NaN"
| "row_min (x # xs) = foldl (\<lambda>m v. if dlt v m then v else m) x xs"

fun row_max :: "dbl list \<Rightarrow> dbl" where
  "row_max [] = NaN"
| "row_max (x # xs) = foldl (\<lambda>m v. if dlt m v then v else m) x xs"

definition row_mean :: "dbl list \<Rightarrow> dbl" where
  "row_mean r = foldl (+) (Fin 0) r / Fin (real (length r))"

definition arma_min :: "mat \<Rightarrow> colvec" where
  "arma_min X = (if n_cols X = 0 then [] else map row_min (rows X))"

definition arma_max :: "mat \<Rightarrow> colvec" where
  "arma_max X = (if n_cols X = 0 then [] else map row_max (rows X))"

definition arma_mean :: "mat \<Rightarrow> colvec" where
  "arma_mean X = (if n_cols X = 0 then [] else map row_mean (rows X))"

text \<open>
  The element-wise vector expressions of the code: \<^verbatim>\<open>a - b\<close> on two vectors (of the same
  length wherever the code forms it) and \<^verbatim>\<open>k / v\<close> of a scalar by a vector.
\<close>

definition vec_minus :: "colvec \<Rightarrow> colvec \<Rightarrow> colvec" where
  "vec_minus a b = map2 (-) a b"

definition scalar_div_vec :: "dbl \<Rightarrow> colvec \<Rightarrow> colvec" where
  "scalar_div_vec k v = map (\<lambda>d. k / d) v"

section \<open>Control: outcomes and counted loops\<close>

text \<open>
  A method works on its object and on the output matrix it is given by reference; the
  two make up the frame that the statements of the method transform. Reading a vector
  beyond its end does not return: with bounds checks it raises, without them the
  behaviour is undefined. Such a step ends the method with \<open>Throws\<close>, which carries the
  frame as it was left.
\<close>

datatype error = IndexOutOfBounds

datatype 's outcome = Normal 's | Throws error 's

fun state_of :: "'s outcome \<Rightarrow> 's" where
  "state_of (Normal s) = s"
| "state_of (Throws e s) = s"

fun is_normal :: "'s outcome \<Rightarrow> bool" where
  "is_normal (Normal s) = True"
| "is_normal (Throws e s) = False"

record 'c frame =
  this :: 'c
  out_mat :: mat

text \<open>\<^verbatim>\<open>for (size_t i = lo; i < n; i++) body\<close>; no body of the code changes its bound.\<close>

function for_loop :: "nat \<Rightarrow> nat \<Rightarrow> (nat \<Rightarrow> 's \<Rightarrow> 's outcome) \<Rightarrow> 's \<Rightarrow> 's outcome" where
  "for_loop i n body s =
     (if i < n then
        (case body i s of
           Normal s' \<Rightarrow> for_loop (Suc i) n body s'
         | Throws e s' \<Rightarrow> Throws e s')
      else Normal s)"
  by pat_completeness auto
termination
  by (relation "measure (\<lambda>(i, n, body, s). n - i)") auto

declare for_loop.simps [simp del]

section \<open>MeanNormalization\<close>

record MeanNormalization =
  mn_itemMean :: colvec
  mn_itemMin :: colvec
  mn_itemMax :: colvec
  mn_scale :: colvec

text \<open>The implicit default constructor: four empty vectors.\<close>

definition MeanNormalization_new :: MeanNormalization where
  "MeanNormalization_new = \<lparr>mn_itemMean = [], mn_itemMin = [], mn_itemMax = [], mn_scale = []\<rparr>"

text \<open>The body of the loop over the scale vector: \<^verbatim>\<open>if (scale(i) == 0) scale(i) = 1;\<close>\<close>

definition mn_handle_zero :: "nat \<Rightarrow> MeanNormalization frame \<Rightarrow> MeanNormalization frame outcome" where
  "mn_handle_zero i fr =
     (let s = this fr in
      if i < length (mn_scale s) then
        (if deq (mn_scale s ! i) (Fin 0)
         then Normal (fr\<lparr>this := s\<lparr>mn_scale := (mn_scale s)[i := Fin 1]\<rparr>\<rparr>)
         else Normal fr)
      else Throws IndexOutOfBounds fr)"

text \<open>
  The body of the inner loop of \<^verbatim>\<open>Transform\<close>:
  \<^verbatim>\<open>output(i, j) = input(i, j) - itemMean(i); output(i, j) /= scale(i);\<close>
\<close>

definition mn_Transform_body :: "mat \<Rightarrow> nat \<Rightarrow> nat \<Rightarrow> MeanNormalization frame \<Rightarrow> MeanNormalization frame outcome" where
  "mn_Transform_body input i j fr =
     (let s = this fr in
      if i < length (mn_itemMean s) then
        (let fr1 = fr\<lparr>out_mat := mat_set (out_mat fr) i j (mat_at input i j - mn_itemMean s ! i)\<rparr> in
         if i < length (mn_scale s) then
           Normal (fr1\<lparr>out_mat := mat_set (out_mat fr1) i j (mat_at (out_mat fr1) i j / mn_scale s ! i)\<rparr>)
         else Throws IndexOutOfBounds fr1)
      else Throws IndexOutOfBounds fr)"

definition mn_Transform :: "MeanNormalization \<Rightarrow> mat \<Rightarrow> MeanNormalization frame outcome" where
  "mn_Transform s input =
     (let out = copy_size input;
          s = s\<lparr>mn_itemMean := arma_mean input\<rparr>;
          s = s\<lparr>mn_itemMin := arma_min input\<rparr>;
          s = s\<lparr>mn_itemMax := arma_max input\<rparr>;
          s = s\<lparr>mn_scale := vec_minus (mn_itemMax s) (mn_itemMin s)\<rparr>
      in case for_loop 0 (length (mn_scale s)) mn_handle_zero \<lparr>this = s, out_mat = out\<rparr> of
           Throws e fr \<Rightarrow> Throws e fr
         | Normal fr \<Rightarrow>
             for_loop 0 (n_rows input)
               (\<lambda>i. for_loop 0 (n_cols input) (\<lambda>j. mn_Transform_body input i j)) fr)"

text \<open>
  The body of the inner loop of \<^verbatim>\<open>InverseTransform\<close>:
  \<^verbatim>\<open>output(i, j) = input(i, j) * scale(i); output(i, j) += itemMean(i);\<close>
\<close>

definition mn_InverseTransform_body :: "mat \<Rightarrow> nat \<Rightarrow> nat \<Rightarrow> MeanNormalization frame \<Rightarrow> MeanNormalization frame outcome" where
  "mn_InverseTransform_body input i j fr =
     (let s = this fr in
      if i < length (mn_scale s) then
        (let fr1 = fr\<lparr>out_mat := mat_set (out_mat fr) i j (mat_at input i j * mn_scale s ! i)\<rparr> in
         if i < length (mn_itemMean s) then
           Normal (fr1\<lparr>out_mat := mat_set (out_mat fr1) i j (mat_at (out_mat fr1) i j + mn_itemMean s ! i)\<rparr>)
         else Throws IndexOutOfBounds fr1)
      else Throws IndexOutOfBounds fr)"

definition mn_InverseTransform :: "MeanNormalization \<Rightarrow> mat \<Rightarrow> MeanNormalization frame outcome" where
  "mn_InverseTransform s input =
     for_loop 0 (n_rows input)
       (\<lambda>i. for_loop 0 (n_cols input) (\<lambda>j. mn_InverseTransform_body input i j))
       \<lparr>this = s, out_mat = copy_size input\<rparr>"

text \<open>The accessors return the stored vectors.\<close>

definition mn_ItemMean :: "MeanNormalization \<Rightarrow> colvec" where
  "mn_ItemMean s = mn_itemMean s"

definition mn_ItemMin :: "MeanNormalization \<Rightarrow> colvec" where
  "mn_ItemMin s = mn_itemMin s"

definition mn_ItemMax :: "MeanNormalization \<Rightarrow> colvec" where
  "mn_ItemMax s = mn_itemMax s"

definition mn_Scale :: "MeanNormalization \<Rightarrow> colvec" where
  "mn_Scale s = mn_scale s"

section \<open>MinMaxScaler\<close>

record MinMaxScaler =
  mm_itemMin :: colvec
  mm_itemMax :: colvec
  mm_scale :: colvec
  mm_scalemin :: dbl
  mm_scalemax :: dbl

text \<open>The constructor \<^verbatim>\<open>MinMaxScaler(min = 0, max = 1)\<close>, its parameters written \<open>lo\<close> and \<open>hi\<close>;
  the vectors start empty.\<close>

definition MinMaxScaler_new :: "dbl \<Rightarrow> dbl \<Rightarrow> MinMaxScaler" where
  "MinMaxScaler_new lo hi =
     \<lparr>mm_itemMin = [], mm_itemMax = [], mm_scale = [], mm_scalemin = lo, mm_scalemax = hi\<rparr>"

definition MinMaxScaler_default :: MinMaxScaler where
  "MinMaxScaler_default = MinMaxScaler_new (Fin 0) (Fin 1)"

definition mm_handle_zero :: "nat \<Rightarrow> MinMaxScaler frame \<Rightarrow> MinMaxScaler frame outcome" where
  "mm_handle_zero i fr =
     (let s = this fr in
      if i < length (mm_scale s) then
        (if deq (mm_scale s ! i) (Fin 0)
         then Normal (fr\<lparr>this := s\<lparr>mm_scale := (mm_scale s)[i := Fin 1]\<rparr>\<rparr>)
         else Normal fr)
      else Throws IndexOutOfBounds fr)"

text \<open>
  The body of the inner loop of \<^verbatim>\<open>Transform\<close>:
  \<^verbatim>\<open>output(i, j) = scale(i) * input(i, j) + scalemin - itemMin(i) * scale(i);\<close>
\<close>

definition mm_Transform_body :: "mat \<Rightarrow> nat \<Rightarrow> nat \<Rightarrow> MinMaxScaler frame \<Rightarrow> MinMaxScaler frame outcome" where
  "mm_Transform_body input i j fr =
     (let s = this fr in
      if i < length (mm_scale s) \<and> i < length (mm_itemMin s) then
        Normal (fr\<lparr>out_mat := mat_set (out_mat fr) i j
          (mm_scale s ! i * mat_at input i j + mm_scalemin s - mm_itemMin s ! i * mm_scale s ! i)\<rparr>)
      else Throws IndexOutOfBounds fr)"

definition mm_Transform :: "MinMaxScaler \<Rightarrow> mat \<Rightarrow> MinMaxScaler frame outcome" where
  "mm_Transform s input =
     (let out = copy_size input;
          s = s\<lparr>mm_itemMin := arma_min input\<rparr>;
          s = s\<lparr>mm_itemMax := arma_max input\<rparr>;
          s = s\<lparr>mm_scale := scalar_div_vec (mm_scalemax s - mm_scalemin s)
                               (vec_minus (mm_itemMax s) (mm_itemMin s))\<rparr>
      in case for_loop 0 (length (mm_scale s)) mm_handle_zero \<lparr>this = s, out_mat = out\<rparr> of
           Throws e fr \<Rightarrow> Throws e fr
         | Normal fr \<Rightarrow>
             for_loop 0 (n_rows input)
               (\<lambda>i. for_loop 0 (n_cols input) (\<lambda>j. mm_Transform_body input i j)) fr)"

text \<open>
  The body of the inner loop of \<^verbatim>\<open>InverseTransform\<close>:
  \<^verbatim>\<open>output(i, j) = (input(i, j) - scalemin + itemMin(i) * scale(i)) / scale(i);\<close>
\<close>

definition mm_InverseTransform_body :: "mat \<Rightarrow> nat \<Rightarrow> nat \<Rightarrow> MinMaxScaler frame \<Rightarrow> MinMaxScaler frame outcome" where
  "mm_InverseTransform_body input i j fr =
     (let s = this fr in
      if i < length (mm_itemMin s) \<and> i < length (mm_scale s) then
        Normal (fr\<lparr>out_mat := mat_set (out_mat fr) i j
          ((mat_at input i j - mm_scalemin s + mm_itemMin s ! i * mm_scale s ! i) / mm_scale s ! i)\<rparr>)
      else Throws IndexOutOfBounds fr)"

definition mm_InverseTransform :: "MinMaxScaler \<Rightarrow> mat \<Rightarrow> MinMaxScaler frame outcome" where
  "mm_InverseTransform s input =
     for_loop 0 (n_rows input)
       (\<lambda>i. for_loop 0 (n_cols input) (\<lambda>j. mm_InverseTransform_body input i j))
       \<lparr>this = s, out_mat = copy_size input\<rparr>"

definition mm_ItemMin :: "MinMaxScaler \<Rightarrow> colvec" where
  "mm_ItemMin s = mm_itemMin s"

definition mm_ItemMax :: "MinMaxScaler \<Rightarrow> colvec" where
  "mm_ItemMax s = mm_itemMax s"

definition mm_Scale :: "MinMaxScaler \<Rightarrow> colvec" where
  "mm_Scale s = mm_scale s"

definition mm_ScaleMax :: "MinMaxScaler \<Rightarrow> dbl" where
  "mm_ScaleMax s = mm_scalemax s"

definition mm_ScaleMin :: "MinMaxScaler \<Rightarrow> dbl" where
  "mm_ScaleMin s = mm_scalemin s"

section \<open>What the transforms are specified to compute\<close>

text \<open>
  The value of a finite number, and the effect of the zero-handling loop on one entry of
  the scale vector.
\<close>

fun val :: "dbl \<Rightarrow> real" where
  "val (Fin a) = a"
| "val _ = 0"

definition handle_zero :: "dbl \<Rightarrow> dbl" where
  "handle_zero d = (if deq d (Fin 0) then Fin 1 else d)"

text \<open>
  Mean normalization as the specification words it: for a feature row, the mean is the
  average of the row, the scale is the maximum minus the minimum of the row, replaced by 1
  if it is zero, and an entry \<open>x\<close> becomes \<open>(x - mean) / scale\<close>.
\<close>

definition spec_mn_scale :: "dbl list \<Rightarrow> dbl" where
  "spec_mn_scale r = (if deq (row_max r - row_min r) (Fin 0) then Fin 1 else row_max r - row_min r)"

definition spec_mn_row :: "dbl list \<Rightarrow> dbl list" where
  "spec_mn_row r = map (\<lambda>x. (x - row_mean r) / spec_mn_scale r) r"

definition spec_mn_Transform :: "mat \<Rightarrow> mat" where
  "spec_mn_Transform input =
     \<lparr>n_rows = n_rows input, n_cols = n_cols input, rows = map spec_mn_row (rows input)\<rparr>"

text \<open>
  Min-max scaling as the specification words it: for a feature row, the scale is
  \<open>(scalemax - scalemin) / (max - min)\<close>, a zero entry of the scale vector forced to 1,
  and an entry \<open>x\<close> becomes \<open>scale * x + scalemin - min * scale\<close>.
\<close>

definition spec_mm_scale :: "dbl \<Rightarrow> dbl \<Rightarrow> dbl list \<Rightarrow> dbl" where
  "spec_mm_scale lo hi r =
     (if deq ((hi - lo) / (row_max r - row_min r)) (Fin 0) then Fin 1
      else (hi - lo) / (row_max r - row_min r))"

definition spec_mm_row :: "dbl \<Rightarrow> dbl \<Rightarrow> dbl list \<Rightarrow> dbl list" where
  "spec_mm_row lo hi r =
     map (\<lambda>x. spec_mm_scale lo hi r * x + lo - row_min r * spec_mm_scale lo hi r) r"

definition spec_mm_Transform :: "dbl \<Rightarrow> dbl \<Rightarrow> mat \<Rightarrow> mat" where
  "spec_mm_Transform lo hi input =
     \<lparr>n_rows = n_rows input, n_cols = n_cols input, rows = map (spec_mm_row lo hi) (rows input)\<rparr>"

text \<open>
  A matrix \<open>X\<close> has the size of \<open>A\<close>: the same dimensions, and rows that match them.
\<close>

definition same_size :: "mat \<Rightarrow> mat \<Rightarrow> bool" where
  "same_size A X = (n_rows X = n_rows A \<and> n_cols X = n_cols A \<and> wf_mat X)"

section \<open>Rows on which no operation overflows or underflows\<close>

text \<open>
  The statements about values (round trip, centering, range) hold where the arithmetic
  of the two classes stays within the range of \<^verbatim>\<open>double\<close>. A real number is in range
  if it is zero or its magnitude lies between \<open>2^-1022\<close>, the least normal
  \<^verbatim>\<open>double\<close>, and \<open>2^1022\<close>; a value has magnitude at most \<open>B\<close> if it is finite and
  its absolute value is at most \<open>B\<close>.
\<close>

definition in_range :: "real \<Rightarrow> bool" where
  "in_range r = (r = 0 \<or> (dbl_min_normal \<le> \<bar>r\<bar> \<and> \<bar>r\<bar> \<le> 2 ^ 1022))"

definition magnitude_le :: "real \<Rightarrow> dbl \<Rightarrow> bool" where
  "magnitude_le B x = (is_finite x \<and> \<bar>val x\<bar> \<le> B)"

text \<open>The mean and the scale of a row of real numbers, as \<^verbatim>\<open>MeanNormalization\<close> has them.\<close>

definition real_mean :: "real list \<Rightarrow> real" where
  "real_mean xs = sum_list xs / real (length xs)"

definition real_scale :: "real list \<Rightarrow> real" where
  "real_scale xs = (if Max (set xs) = Min (set xs) then 1 else Max (set xs) - Min (set xs))"

text \<open>
  \<^verbatim>\<open>MeanNormalization::Transform\<close> on a row: the row is not empty and has at most
  \<open>2^64\<close> entries of magnitude at most \<open>2^959\<close> (no sum, no difference overflows), and
  the mean and each quotient \<open>(x - mean) / scale\<close> is in range (no division underflows).
  \<^verbatim>\<open>InverseTransform\<close> multiplies the quotient by the scale again: each centred entry
  \<open>x - mean\<close> is in range.
\<close>

definition mn_Transform_in_range :: "dbl list \<Rightarrow> bool" where
  "mn_Transform_in_range r =
     (r \<noteq> [] \<and> real (length r) \<le> 2 ^ 64 \<and> list_all (magnitude_le (2 ^ 959)) r \<and>
      in_range (real_mean (map val r)) \<and>
      list_all (\<lambda>x. in_range ((val x - real_mean (map val r)) / real_scale (map val r))) r)"





section \<open>Counted loops: unfolding, invariants, preservation\<close>

lemma for_loop_done: "\<not> i < n \<Longrightarrow> for_loop i n body s = Normal s"
  by (simp add: for_loop.simps)

lemma for_loop_step:
  "i < n \<Longrightarrow> for_loop i n body s =
     (case body i s of Normal s' \<Rightarrow> for_loop (Suc i) n body s' | Throws e s' \<Rightarrow> Throws e s')"
  by (subst for_loop.simps) simp

lemma for_loop_rule:
  assumes "I i s" and "i \<le> n"
    and step: "\<And>k t. i \<le> k \<Longrightarrow> k < n \<Longrightarrow> I k t \<Longrightarrow> \<exists>t'. body k t = Normal t' \<and> I (Suc k) t'"
  shows "\<exists>s'. for_loop i n body s = Normal s' \<and> I n s'"
  using assms(1,2) step
proof (induction i n body s rule: for_loop.induct)
  case (1 i n body s)
  show ?case
  proof (cases "i < n")
    case True
    from "1.prems"(3)[of i s] True "1.prems"(1)
    obtain t where t: "body i s = Normal t" "I (Suc i) t" by auto
    have "\<exists>s'. for_loop (Suc i) n body t = Normal s' \<and> I n s'"
      using "1.IH"[OF True t(1) t(2)] True "1.prems"(3) by auto
    then show ?thesis using True t(1) by (simp add: for_loop_step)
  next
    case False
    with "1.prems" show ?thesis by (simp add: for_loop_done)
  qed
qed

lemma for_loop_state:
  assumes "Q s" and "\<And>k t. Q t \<Longrightarrow> Q (state_of (body k t))"
  shows "Q (state_of (for_loop i n body s))"
  using assms
proof (induction i n body s rule: for_loop.induct)
  case (1 i n body s)
  show ?case
  proof (cases "i < n")
    case True
    show ?thesis
    proof (cases "body i s")
      case (Normal t)
      have "Q t" using "1.prems"(2)[OF "1.prems"(1), of i] Normal by simp
      then have "Q (state_of (for_loop (Suc i) n body t))"
        using "1.IH"[OF True Normal] "1.prems"(2) by blast
      then show ?thesis using True Normal by (simp add: for_loop_step)
    next
      case (Throws e t)
      have "Q t" using "1.prems"(2)[OF "1.prems"(1), of i] Throws by simp
      then show ?thesis using True Throws by (simp add: for_loop_step)
    qed
  next
    case False
    with "1.prems" show ?thesis by (simp add: for_loop_done)
  qed
qed

subsection \<open>The two nested loops fill the output matrix\<close>

lemma upd_prefix:
  "j < length r \<Longrightarrow>
     (map g [0..<j] @ drop j r)[j := g j] = map g [0..<Suc j] @ drop (Suc j) r"
  by (simp add: list_update_append upd_conv_take_nth_drop)

lemma row_loop:
  fixes body :: "nat \<Rightarrow> 'c frame \<Rightarrow> 'c frame outcome"
  assumes body: "\<And>j fr. j < nc \<Longrightarrow> this fr = s \<Longrightarrow> length (rows (out_mat fr)) = nr \<Longrightarrow>
        length (rows (out_mat fr) ! i) = nc \<Longrightarrow>
        body j fr = Normal (fr\<lparr>out_mat := mat_set (out_mat fr) i j (g j)\<rparr>)"
    and X: "length (rows X) = nr" "length (rows X ! i) = nc" "i < nr"
  shows "for_loop 0 nc body \<lparr>this = s, out_mat = X\<rparr> =
         Normal \<lparr>this = s, out_mat = X\<lparr>rows := (rows X)[i := map g [0..<nc]]\<rparr>\<rparr>"
proof -
  define I where "I = (\<lambda>j (fr :: 'c frame).
     fr = \<lparr>this = s, out_mat = X\<lparr>rows := (rows X)[i := map g [0..<j] @ drop j (rows X ! i)]\<rparr>\<rparr>)"
  have init: "I 0 \<lparr>this = s, out_mat = X\<rparr>"
    by (simp add: I_def)
  have step: "\<exists>t'. body k t = Normal t' \<and> I (Suc k) t'" if "k < nc" "I k t" for k t
  proof -
    have t: "t = \<lparr>this = s, out_mat = X\<lparr>rows := (rows X)[i := map g [0..<k] @ drop k (rows X ! i)]\<rparr>\<rparr>"
      using that(2) by (simp add: I_def)
    have len: "length (rows (out_mat t)) = nr" "length (rows (out_mat t) ! i) = nc"
      using X that(1) by (simp_all add: t)
    have "body k t = Normal (t\<lparr>out_mat := mat_set (out_mat t) i k (g k)\<rparr>)"
      using body[OF that(1) _ len] by (simp add: t)
    moreover have "I (Suc k) (t\<lparr>out_mat := mat_set (out_mat t) i k (g k)\<rparr>)"
      using X that(1) upd_prefix[of k "rows X ! i" g]
      by (simp add: I_def t mat_set_def del: upt_Suc)
    ultimately show ?thesis by blast
  qed
  obtain s' where "for_loop 0 nc body \<lparr>this = s, out_mat = X\<rparr> = Normal s'" "I nc s'"
    using for_loop_rule[of I 0 "\<lparr>this = s, out_mat = X\<rparr>" nc body, OF init] step by blast
  then show ?thesis using X by (simp add: I_def)
qed

lemma fill_loops:
  fixes body :: "nat \<Rightarrow> nat \<Rightarrow> 'c frame \<Rightarrow> 'c frame outcome"
  assumes body: "\<And>i j fr. i < nr \<Longrightarrow> j < nc \<Longrightarrow> this fr = s \<Longrightarrow>
        length (rows (out_mat fr)) = nr \<Longrightarrow> length (rows (out_mat fr) ! i) = nc \<Longrightarrow>
        body i j fr = Normal (fr\<lparr>out_mat := mat_set (out_mat fr) i j (G i j)\<rparr>)"
    and X: "length (rows X) = nr" "\<forall>k<nr. length (rows X ! k) = nc"
  shows "for_loop 0 nr (\<lambda>i. for_loop 0 nc (body i)) \<lparr>this = s, out_mat = X\<rparr> =
         Normal \<lparr>this = s, out_mat = X\<lparr>rows := map (\<lambda>i. map (G i) [0..<nc]) [0..<nr]\<rparr>\<rparr>"
proof -
  define h where "h = (\<lambda>i. map (G i) [0..<nc])"
  define I where "I = (\<lambda>i (fr :: 'c frame).
     fr = \<lparr>this = s, out_mat = X\<lparr>rows := map h [0..<i] @ drop i (rows X)\<rparr>\<rparr>)"
  have init: "I 0 \<lparr>this = s, out_mat = X\<rparr>"
    by (simp add: I_def)
  have step: "\<exists>t'. for_loop 0 nc (body k) t = Normal t' \<and> I (Suc k) t'" if "k < nr" "I k t" for k t
  proof -
    define Y where "Y = X\<lparr>rows := map h [0..<k] @ drop k (rows X)\<rparr>"
    have t: "t = \<lparr>this = s, out_mat = Y\<rparr>"
      using that(2) by (simp add: I_def Y_def)
    have lenY: "length (rows Y) = nr" "length (rows Y ! k) = nc"
      using X that(1) by (simp_all add: Y_def nth_append)
    have "for_loop 0 nc (body k) \<lparr>this = s, out_mat = Y\<rparr> =
          Normal \<lparr>this = s, out_mat = Y\<lparr>rows := (rows Y)[k := map (G k) [0..<nc]]\<rparr>\<rparr>"
      by (rule row_loop[where nr = nr]) (use body that(1) lenY in auto)
    moreover have "I (Suc k) \<lparr>this = s, out_mat = Y\<lparr>rows := (rows Y)[k := map (G k) [0..<nc]]\<rparr>\<rparr>"
      using X that(1) upd_prefix[of k "rows X" h]
      by (simp add: I_def Y_def h_def del: upt_Suc)
    ultimately show ?thesis by (simp add: t)
  qed
  obtain s' where "for_loop 0 nr (\<lambda>i. for_loop 0 nc (body i)) \<lparr>this = s, out_mat = X\<rparr> = Normal s'" "I nr s'"
    using for_loop_rule[of I 0 "\<lparr>this = s, out_mat = X\<rparr>" nr "\<lambda>i. for_loop 0 nc (body i)", OF init] step
    by blast
  then show ?thesis using X by (simp add: I_def h_def)
qed

subsection \<open>The loop over the scale vector\<close>

lemma upd_take_prefix:
  "k < length sc \<Longrightarrow>
     (map f (take k sc) @ drop k sc)[k := f (sc ! k)] = map f (take (Suc k) sc) @ drop (Suc k) sc"
  by (simp add: list_update_append take_Suc_conv_app_nth upd_conv_take_nth_drop)

lemma keep_take_prefix:
  "k < length sc \<Longrightarrow> f (sc ! k) = sc ! k \<Longrightarrow>
     map f (take k sc) @ drop k sc = map f (take (Suc k) sc) @ drop (Suc k) sc"
  by (simp add: take_Suc_conv_app_nth Cons_nth_drop_Suc)

lemma mn_handle_zero_loop:
  "for_loop 0 (length (mn_scale s)) mn_handle_zero \<lparr>this = s, out_mat = X\<rparr> =
     Normal \<lparr>this = s\<lparr>mn_scale := map handle_zero (mn_scale s)\<rparr>, out_mat = X\<rparr>"
proof -
  define sc where "sc = mn_scale s"
  define I where "I = (\<lambda>k (fr :: MeanNormalization frame).
     fr = \<lparr>this = s\<lparr>mn_scale := map handle_zero (take k sc) @ drop k sc\<rparr>, out_mat = X\<rparr>)"
  have init: "I 0 \<lparr>this = s, out_mat = X\<rparr>"
    by (simp add: I_def sc_def)
  have step: "\<exists>t'. mn_handle_zero k t = Normal t' \<and> I (Suc k) t'" if "k < length sc" "I k t" for k t
  proof -
    have t: "t = \<lparr>this = s\<lparr>mn_scale := map handle_zero (take k sc) @ drop k sc\<rparr>, out_mat = X\<rparr>"
      using that(2) by (simp add: I_def)
    have nth: "(map handle_zero (take k sc) @ drop k sc) ! k = sc ! k"
      using that(1) by (simp add: nth_append)
    show ?thesis
    proof (cases "deq (sc ! k) (Fin 0)")
      case True
      then have "handle_zero (sc ! k) = Fin 1" by (simp add: handle_zero_def)
      then show ?thesis
        using that(1) True nth upd_take_prefix[of k sc handle_zero]
        by (simp add: mn_handle_zero_def t I_def)
    next
      case False
      then have "handle_zero (sc ! k) = sc ! k" by (simp add: handle_zero_def)
      then have "I (Suc k) t"
        using that(1) keep_take_prefix[of k sc handle_zero] by (simp add: t I_def)
      moreover have "mn_handle_zero k t = Normal t"
        using that(1) False nth by (simp add: mn_handle_zero_def t)
      ultimately show ?thesis by blast
    qed
  qed
  obtain s' where "for_loop 0 (length sc) mn_handle_zero \<lparr>this = s, out_mat = X\<rparr> = Normal s'"
      "I (length sc) s'"
    using for_loop_rule[of I 0 "\<lparr>this = s, out_mat = X\<rparr>" "length sc" mn_handle_zero, OF init] step
    by blast
  then show ?thesis by (simp add: I_def sc_def)
qed

lemma mm_handle_zero_loop:
  "for_loop 0 (length (mm_scale s)) mm_handle_zero \<lparr>this = s, out_mat = X\<rparr> =
     Normal \<lparr>this = s\<lparr>mm_scale := map handle_zero (mm_scale s)\<rparr>, out_mat = X\<rparr>"
proof -
  define sc where "sc = mm_scale s"
  define I where "I = (\<lambda>k (fr :: MinMaxScaler frame).
     fr = \<lparr>this = s\<lparr>mm_scale := map handle_zero (take k sc) @ drop k sc\<rparr>, out_mat = X\<rparr>)"
  have init: "I 0 \<lparr>this = s, out_mat = X\<rparr>"
    by (simp add: I_def sc_def)
  have step: "\<exists>t'. mm_handle_zero k t = Normal t' \<and> I (Suc k) t'" if "k < length sc" "I k t" for k t
  proof -
    have t: "t = \<lparr>this = s\<lparr>mm_scale := map handle_zero (take k sc) @ drop k sc\<rparr>, out_mat = X\<rparr>"
      using that(2) by (simp add: I_def)
    have nth: "(map handle_zero (take k sc) @ drop k sc) ! k = sc ! k"
      using that(1) by (simp add: nth_append)
    show ?thesis
    proof (cases "deq (sc ! k) (Fin 0)")
      case True
      then have "handle_zero (sc ! k) = Fin 1" by (simp add: handle_zero_def)
      then show ?thesis
        using that(1) True nth upd_take_prefix[of k sc handle_zero]
        by (simp add: mm_handle_zero_def t I_def)
    next
      case False
      then have "handle_zero (sc ! k) = sc ! k" by (simp add: handle_zero_def)
      then have "I (Suc k) t"
        using that(1) keep_take_prefix[of k sc handle_zero] by (simp add: t I_def)
      moreover have "mm_handle_zero k t = Normal t"
        using that(1) False nth by (simp add: mm_handle_zero_def t)
      ultimately show ?thesis by blast
    qed
  qed
  obtain s' where "for_loop 0 (length sc) mm_handle_zero \<lparr>this = s, out_mat = X\<rparr> = Normal s'"
      "I (length sc) s'"
    using for_loop_rule[of I 0 "\<lparr>this = s, out_mat = X\<rparr>" "length sc" mm_handle_zero, OF init] step
    by blast
  then show ?thesis by (simp add: I_def sc_def)
qed

lemma mat_set_twice:
  "i < length (rows X) \<Longrightarrow> j < length (rows X ! i) \<Longrightarrow>
     mat_set (mat_set X i j a) i j (f (mat_at (mat_set X i j a) i j)) = mat_set X i j (f a)"
  by (simp add: mat_set_def mat_at_def)

subsection \<open>The four methods in closed form, by index\<close>

lemma copy_size_rows:
  "length (rows (copy_size A)) = n_rows A"
  "k < n_rows A \<Longrightarrow> length (rows (copy_size A) ! k) = n_cols A"
  by (simp_all add: copy_size_def)

lemma copy_size_upd:
  "(copy_size A)\<lparr>rows := R\<rparr> = \<lparr>n_rows = n_rows A, n_cols = n_cols A, rows = R\<rparr>"
  by (simp add: copy_size_def)

lemma stats_length:
  "length (arma_min X) = (if n_cols X = 0 then 0 else length (rows X))"
  "length (arma_max X) = (if n_cols X = 0 then 0 else length (rows X))"
  "length (arma_mean X) = (if n_cols X = 0 then 0 else length (rows X))"
  "length (vec_minus (arma_max X) (arma_min X)) = (if n_cols X = 0 then 0 else length (rows X))"
  by (simp_all add: arma_min_def arma_max_def arma_mean_def vec_minus_def)

lemma mn_Transform_body_eq:
  assumes "this fr = s" "i < length (mn_itemMean s)" "i < length (mn_scale s)"
    "i < length (rows (out_mat fr))" "j < length (rows (out_mat fr) ! i)"
  shows "mn_Transform_body input i j fr =
     Normal (fr\<lparr>out_mat := mat_set (out_mat fr) i j
        ((mat_at input i j - mn_itemMean s ! i) / mn_scale s ! i)\<rparr>)"
  using assms mat_set_twice[where f = "\<lambda>a. a / mn_scale s ! i" and X = "out_mat fr" and i = i and j = j]
  by (simp add: mn_Transform_body_def Let_def)


lemma mm_Transform_body_eq:
  assumes "this fr = s" "i < length (mm_itemMin s)" "i < length (mm_scale s)"
  shows "mm_Transform_body input i j fr =
     Normal (fr\<lparr>out_mat := mat_set (out_mat fr) i j
        (mm_scale s ! i * mat_at input i j + mm_scalemin s - mm_itemMin s ! i * mm_scale s ! i)\<rparr>)"
  using assms by (simp add: mm_Transform_body_def Let_def)


lemma mn_Transform_index:
  assumes "wf_mat input"
  shows "mn_Transform s input =
     Normal \<lparr>this = \<lparr>mn_itemMean = arma_mean input, mn_itemMin = arma_min input,
                      mn_itemMax = arma_max input,
                      mn_scale = map handle_zero (vec_minus (arma_max input) (arma_min input))\<rparr>,
             out_mat = \<lparr>n_rows = n_rows input, n_cols = n_cols input,
               rows = map (\<lambda>i. map (\<lambda>j. (mat_at input i j - arma_mean input ! i) /
                         map handle_zero (vec_minus (arma_max input) (arma_min input)) ! i)
                         [0..<n_cols input]) [0..<n_rows input]\<rparr>\<rparr>"
proof -
  define T where "T = \<lparr>mn_itemMean = arma_mean input, mn_itemMin = arma_min input,
                      mn_itemMax = arma_max input,
                      mn_scale = map handle_zero (vec_minus (arma_max input) (arma_min input))\<rparr>"
  define T0 where "T0 = s\<lparr>mn_itemMean := arma_mean input, mn_itemMin := arma_min input,
                      mn_itemMax := arma_max input,
                      mn_scale := vec_minus (arma_max input) (arma_min input)\<rparr>"
  have T: "T0\<lparr>mn_scale := map handle_zero (mn_scale T0)\<rparr> = T"
    by (simp add: T_def T0_def)
  have len: "length (rows input) = n_rows input"
    using assms by (simp add: wf_mat_def)
  have guard: "for_loop 0 (length (mn_scale T0)) mn_handle_zero \<lparr>this = T0, out_mat = copy_size input\<rparr>
      = Normal \<lparr>this = T, out_mat = copy_size input\<rparr>"
    using mn_handle_zero_loop[of T0 "copy_size input"] by (simp only: T)
  have fill: "for_loop 0 (n_rows input)
        (\<lambda>i. for_loop 0 (n_cols input) (\<lambda>j. mn_Transform_body input i j))
        \<lparr>this = T, out_mat = copy_size input\<rparr> =
      Normal \<lparr>this = T, out_mat = (copy_size input)\<lparr>rows :=
        map (\<lambda>i. map (\<lambda>j. (mat_at input i j - mn_itemMean T ! i) / mn_scale T ! i)
          [0..<n_cols input]) [0..<n_rows input]\<rparr>\<rparr>"
  proof (rule fill_loops)
    fix i j and fr :: "MeanNormalization frame"
    assume a: "i < n_rows input" "j < n_cols input" "this fr = T"
      "length (rows (out_mat fr)) = n_rows input" "length (rows (out_mat fr) ! i) = n_cols input"
    have "i < length (mn_itemMean T)" "i < length (mn_scale T)"
      using a(1,2) len by (simp_all add: T_def stats_length)
    then show "mn_Transform_body input i j fr = Normal (fr\<lparr>out_mat := mat_set (out_mat fr) i j
        ((mat_at input i j - mn_itemMean T ! i) / mn_scale T ! i)\<rparr>)"
      using a by (intro mn_Transform_body_eq) simp_all
  qed (simp_all add: copy_size_rows)
  have "mn_Transform s input =
     (case for_loop 0 (length (mn_scale T0)) mn_handle_zero \<lparr>this = T0, out_mat = copy_size input\<rparr> of
        Throws e fr \<Rightarrow> Throws e fr
      | Normal fr \<Rightarrow> for_loop 0 (n_rows input)
               (\<lambda>i. for_loop 0 (n_cols input) (\<lambda>j. mn_Transform_body input i j)) fr)"
    by (simp add: mn_Transform_def T0_def Let_def)
  also have "\<dots> = Normal \<lparr>this = T, out_mat = (copy_size input)\<lparr>rows :=
        map (\<lambda>i. map (\<lambda>j. (mat_at input i j - mn_itemMean T ! i) / mn_scale T ! i)
          [0..<n_cols input]) [0..<n_rows input]\<rparr>\<rparr>"
    by (simp only: guard fill outcome.case)
  finally show ?thesis
    by (simp add: T_def copy_size_upd)
qed

lemma mm_Transform_index:
  assumes "wf_mat input"
  shows "mm_Transform s input =
     Normal \<lparr>this = \<lparr>mm_itemMin = arma_min input, mm_itemMax = arma_max input,
                      mm_scale = map handle_zero (scalar_div_vec (mm_scalemax s - mm_scalemin s)
                                   (vec_minus (arma_max input) (arma_min input))),
                      mm_scalemin = mm_scalemin s, mm_scalemax = mm_scalemax s\<rparr>,
             out_mat = \<lparr>n_rows = n_rows input, n_cols = n_cols input,
               rows = map (\<lambda>i. map (\<lambda>j.
                   map handle_zero (scalar_div_vec (mm_scalemax s - mm_scalemin s)
                                   (vec_minus (arma_max input) (arma_min input))) ! i * mat_at input i j
                   + mm_scalemin s
                   - arma_min input ! i *
                     map handle_zero (scalar_div_vec (mm_scalemax s - mm_scalemin s)
                                   (vec_minus (arma_max input) (arma_min input))) ! i)
                         [0..<n_cols input]) [0..<n_rows input]\<rparr>\<rparr>"
proof -
  define T where "T = \<lparr>mm_itemMin = arma_min input, mm_itemMax = arma_max input,
                      mm_scale = map handle_zero (scalar_div_vec (mm_scalemax s - mm_scalemin s)
                                   (vec_minus (arma_max input) (arma_min input))),
                      mm_scalemin = mm_scalemin s, mm_scalemax = mm_scalemax s\<rparr>"
  define T0 where "T0 = s\<lparr>mm_itemMin := arma_min input, mm_itemMax := arma_max input,
                      mm_scale := scalar_div_vec (mm_scalemax s - mm_scalemin s)
                                   (vec_minus (arma_max input) (arma_min input))\<rparr>"
  have T: "T0\<lparr>mm_scale := map handle_zero (mm_scale T0)\<rparr> = T"
    by (simp add: T_def T0_def)
  have len: "length (rows input) = n_rows input"
    using assms by (simp add: wf_mat_def)
  have guard: "for_loop 0 (length (mm_scale T0)) mm_handle_zero \<lparr>this = T0, out_mat = copy_size input\<rparr>
      = Normal \<lparr>this = T, out_mat = copy_size input\<rparr>"
    using mm_handle_zero_loop[of T0 "copy_size input"] by (simp only: T)
  have fill: "for_loop 0 (n_rows input)
        (\<lambda>i. for_loop 0 (n_cols input) (\<lambda>j. mm_Transform_body input i j))
        \<lparr>this = T, out_mat = copy_size input\<rparr> =
      Normal \<lparr>this = T, out_mat = (copy_size input)\<lparr>rows :=
        map (\<lambda>i. map (\<lambda>j. mm_scale T ! i * mat_at input i j + mm_scalemin T
                          - mm_itemMin T ! i * mm_scale T ! i)
          [0..<n_cols input]) [0..<n_rows input]\<rparr>\<rparr>"
  proof (rule fill_loops)
    fix i j and fr :: "MinMaxScaler frame"
    assume a: "i < n_rows input" "j < n_cols input" "this fr = T"
    have "i < length (mm_itemMin T)" "i < length (mm_scale T)"
      using a(1,2) len by (simp_all add: T_def stats_length scalar_div_vec_def)
    then show "mm_Transform_body input i j fr = Normal (fr\<lparr>out_mat := mat_set (out_mat fr) i j
        (mm_scale T ! i * mat_at input i j + mm_scalemin T - mm_itemMin T ! i * mm_scale T ! i)\<rparr>)"
      using a by (intro mm_Transform_body_eq) simp_all
  qed (simp_all add: copy_size_rows)
  have "mm_Transform s input =
     (case for_loop 0 (length (mm_scale T0)) mm_handle_zero \<lparr>this = T0, out_mat = copy_size input\<rparr> of
        Throws e fr \<Rightarrow> Throws e fr
      | Normal fr \<Rightarrow> for_loop 0 (n_rows input)
               (\<lambda>i. for_loop 0 (n_cols input) (\<lambda>j. mm_Transform_body input i j)) fr)"
    by (simp add: mm_Transform_def T0_def Let_def)
  also have "\<dots> = Normal \<lparr>this = T, out_mat = (copy_size input)\<lparr>rows :=
        map (\<lambda>i. map (\<lambda>j. mm_scale T ! i * mat_at input i j + mm_scalemin T
                          - mm_itemMin T ! i * mm_scale T ! i)
          [0..<n_cols input]) [0..<n_rows input]\<rparr>\<rparr>"
    by (simp only: guard fill outcome.case)
  finally show ?thesis
    by (simp add: T_def copy_size_upd)
qed



subsection \<open>What every call preserves\<close>

lemma wf_mat_set: "wf_mat X \<Longrightarrow> wf_mat (mat_set X i j v)"
proof -
  assume wf: "wf_mat X"
  have "length r = n_cols X" if "r \<in> set ((rows X)[i := (rows X ! i)[j := v]])" for r
  proof (cases "i < length (rows X)")
    case True
    then have "r \<in> insert ((rows X ! i)[j := v]) (set (rows X))"
      using that set_update_subset_insert by fastforce
    moreover have "length (rows X ! i) = n_cols X"
      using wf True by (simp add: wf_mat_def list_all_length)
    ultimately show ?thesis using wf by (auto simp: wf_mat_def list_all_iff)
  next
    case False
    then have "(rows X)[i := (rows X ! i)[j := v]] = rows X"
      by (simp add: list_update_beyond)
    then show ?thesis using wf that by (simp add: wf_mat_def list_all_iff)
  qed
  then show ?thesis using wf by (simp add: wf_mat_def mat_set_def list_all_iff)
qed

lemma same_size_set: "same_size A X \<Longrightarrow> same_size A (mat_set X i j v)"
  using wf_mat_set[of X i j v] by (simp add: same_size_def) (simp add: mat_set_def)

lemma same_size_copy: "same_size A (copy_size A)"
  by (simp add: same_size_def copy_size_def wf_mat_def list_all_iff)

lemma mn_Transform_body_size:
  "same_size A (out_mat fr) \<Longrightarrow> same_size A (out_mat (state_of (mn_Transform_body input i j fr)))"
  by (simp add: mn_Transform_body_def Let_def same_size_set)

lemma mn_InverseTransform_body_size:
  "same_size A (out_mat fr) \<Longrightarrow> same_size A (out_mat (state_of (mn_InverseTransform_body input i j fr)))"
  by (simp add: mn_InverseTransform_body_def Let_def same_size_set)

lemma mm_Transform_body_size:
  "same_size A (out_mat fr) \<Longrightarrow> same_size A (out_mat (state_of (mm_Transform_body input i j fr)))"
  by (simp add: mm_Transform_body_def Let_def same_size_set)

lemma mm_InverseTransform_body_size:
  "same_size A (out_mat fr) \<Longrightarrow> same_size A (out_mat (state_of (mm_InverseTransform_body input i j fr)))"
  by (simp add: mm_InverseTransform_body_def Let_def same_size_set)

lemma nested_state:
  assumes "Q s" and "\<And>i j t. Q t \<Longrightarrow> Q (state_of (body i j t))"
  shows "Q (state_of (for_loop a n (\<lambda>i. for_loop b m (body i)) s))"
proof (rule for_loop_state[where Q = Q, OF assms(1)])
  fix k t assume "Q t"
  then show "Q (state_of (for_loop b m (body k) t))"
    by (rule for_loop_state[where Q = Q]) (rule assms(2))
qed

lemma mn_Transform_size: "same_size input (out_mat (state_of (mn_Transform s input)))"
proof -
  have "same_size input (out_mat (state_of (for_loop 0 (n_rows input)
          (\<lambda>i. for_loop 0 (n_cols input) (\<lambda>j. mn_Transform_body input i j))
          \<lparr>this = T, out_mat = copy_size input\<rparr>)))" for T
    by (rule nested_state[where Q = "\<lambda>fr. same_size input (out_mat fr)"])
       (simp_all add: same_size_copy mn_Transform_body_size)
  then show ?thesis
    using mn_handle_zero_loop[of "s\<lparr>mn_itemMean := arma_mean input, mn_itemMin := arma_min input,
        mn_itemMax := arma_max input, mn_scale := vec_minus (arma_max input) (arma_min input)\<rparr>" "copy_size input"]
    by (simp add: mn_Transform_def Let_def)
qed

lemma mm_Transform_size: "same_size input (out_mat (state_of (mm_Transform s input)))"
proof -
  have "same_size input (out_mat (state_of (for_loop 0 (n_rows input)
          (\<lambda>i. for_loop 0 (n_cols input) (\<lambda>j. mm_Transform_body input i j))
          \<lparr>this = T, out_mat = copy_size input\<rparr>)))" for T
    by (rule nested_state[where Q = "\<lambda>fr. same_size input (out_mat fr)"])
       (simp_all add: same_size_copy mm_Transform_body_size)
  then show ?thesis
    using mm_handle_zero_loop[of "s\<lparr>mm_itemMin := arma_min input, mm_itemMax := arma_max input,
        mm_scale := scalar_div_vec (mm_scalemax s - mm_scalemin s)
                      (vec_minus (arma_max input) (arma_min input))\<rparr>" "copy_size input"]
    by (simp add: mm_Transform_def Let_def)
qed

lemma mn_InverseTransform_size: "same_size input (out_mat (state_of (mn_InverseTransform s input)))"
  unfolding mn_InverseTransform_def
  by (rule nested_state[where Q = "\<lambda>fr. same_size input (out_mat fr)"])
     (simp_all add: same_size_copy mn_InverseTransform_body_size)

lemma mm_InverseTransform_size: "same_size input (out_mat (state_of (mm_InverseTransform s input)))"
  unfolding mm_InverseTransform_def
  by (rule nested_state[where Q = "\<lambda>fr. same_size input (out_mat fr)"])
     (simp_all add: same_size_copy mm_InverseTransform_body_size)

lemma mn_InverseTransform_this: "this (state_of (mn_InverseTransform s input)) = s"
  unfolding mn_InverseTransform_def
  by (rule nested_state[where Q = "\<lambda>fr. this fr = s"])
     (simp_all add: mn_InverseTransform_body_def Let_def)

lemma mm_InverseTransform_this: "this (state_of (mm_InverseTransform s input)) = s"
  unfolding mm_InverseTransform_def
  by (rule nested_state[where Q = "\<lambda>fr. this fr = s"])
     (simp_all add: mm_InverseTransform_body_def Let_def)

text \<open>
  \<^verbatim>\<open>InverseTransform\<close> on an object that has not been fitted stops at the first read
  of a statistic vector, with the output resized and not yet written.
\<close>

lemma mn_InverseTransform_unfitted:
  "mn_InverseTransform MeanNormalization_new \<lparr>n_rows = 1, n_cols = 2, rows = [[Fin 0, Fin 1]]\<rparr> =
     Throws IndexOutOfBounds
       \<lparr>this = MeanNormalization_new,
        out_mat = \<lparr>n_rows = 1, n_cols = 2, rows = [[NaN, NaN]]\<rparr>\<rparr>"
  by code_simp

lemma mm_InverseTransform_unfitted:
  "mm_InverseTransform MinMaxScaler_default \<lparr>n_rows = 1, n_cols = 2, rows = [[Fin 0, Fin 1]]\<rparr> =
     Throws IndexOutOfBounds
       \<lparr>this = MinMaxScaler_default,
        out_mat = \<lparr>n_rows = 1, n_cols = 2, rows = [[NaN, NaN]]\<rparr>\<rparr>"
  by code_simp

section \<open>Dimensions and frame\<close>

text \<open>
  C8. Whatever the object and the input, and whether the call returns or stops at a
  vector read out of range, each of \<^verbatim>\<open>Transform\<close> and \<^verbatim>\<open>InverseTransform\<close> of both
  classes leaves the output matrix with the number of rows and the number of columns of
  its input, and with entries stored in exactly that many rows and columns.
\<close>

theorem output_dimensions:
  "n_rows (out_mat (state_of (mn_Transform s input))) = n_rows input \<and>
   n_cols (out_mat (state_of (mn_Transform s input))) = n_cols input \<and>
   n_rows (out_mat (state_of (mn_InverseTransform s input))) = n_rows input \<and>
   n_cols (out_mat (state_of (mn_InverseTransform s input))) = n_cols input \<and>
   n_rows (out_mat (state_of (mm_Transform t input))) = n_rows input \<and>
   n_cols (out_mat (state_of (mm_Transform t input))) = n_cols input \<and>
   n_rows (out_mat (state_of (mm_InverseTransform t input))) = n_rows input \<and>
   n_cols (out_mat (state_of (mm_InverseTransform t input))) = n_cols input \<and>
   wf_mat (out_mat (state_of (mn_Transform s input))) \<and>
   wf_mat (out_mat (state_of (mn_InverseTransform s input))) \<and>
   wf_mat (out_mat (state_of (mm_Transform t input))) \<and>
   wf_mat (out_mat (state_of (mm_InverseTransform t input)))"
  using mn_Transform_size[of input s] mn_InverseTransform_size[of input s]
    mm_Transform_size[of input t] mm_InverseTransform_size[of input t]
  by (simp add: same_size_def)

theorem output_dimensions_witness:
  "n_rows (out_mat (state_of (mn_Transform MeanNormalization_new
      \<lparr>n_rows = 2, n_cols = 3, rows = [[Fin 2, Fin 4, Fin 6], [Fin 5, Fin 5, Fin 5]]\<rparr>))) = 2 \<and>
   n_cols (out_mat (state_of (mm_InverseTransform MinMaxScaler_default
      \<lparr>n_rows = 2, n_cols = 3, rows = [[Fin 2, Fin 4, Fin 6], [Fin 5, Fin 5, Fin 5]]\<rparr>))) = 3"
  using output_dimensions[of MeanNormalization_new
      "\<lparr>n_rows = 2, n_cols = 3, rows = [[Fin 2, Fin 4, Fin 6], [Fin 5, Fin 5, Fin 5]]\<rparr>"
      MinMaxScaler_default]
  by simp

text \<open>
  C10. \<^verbatim>\<open>InverseTransform\<close> of either class leaves its object as it was: the statistic
  vectors, and for \<^verbatim>\<open>MinMaxScaler\<close> the range parameters, are those of before the call,
  and so is what each accessor returns.
\<close>

theorem InverseTransform_keeps_object:
  "this (state_of (mn_InverseTransform s input)) = s \<and>
   mn_ItemMean (this (state_of (mn_InverseTransform s input))) = mn_ItemMean s \<and>
   mn_ItemMin (this (state_of (mn_InverseTransform s input))) = mn_ItemMin s \<and>
   mn_ItemMax (this (state_of (mn_InverseTransform s input))) = mn_ItemMax s \<and>
   mn_Scale (this (state_of (mn_InverseTransform s input))) = mn_Scale s \<and>
   this (state_of (mm_InverseTransform t input)) = t \<and>
   mm_ItemMin (this (state_of (mm_InverseTransform t input))) = mm_ItemMin t \<and>
   mm_ItemMax (this (state_of (mm_InverseTransform t input))) = mm_ItemMax t \<and>
   mm_Scale (this (state_of (mm_InverseTransform t input))) = mm_Scale t \<and>
   mm_ScaleMin (this (state_of (mm_InverseTransform t input))) = mm_ScaleMin t \<and>
   mm_ScaleMax (this (state_of (mm_InverseTransform t input))) = mm_ScaleMax t"
  by (simp add: mn_InverseTransform_this mm_InverseTransform_this)

theorem InverseTransform_keeps_object_witness:
  "mn_Scale (this (state_of (mn_InverseTransform
      \<lparr>mn_itemMean = [Fin 4], mn_itemMin = [Fin 2], mn_itemMax = [Fin 6], mn_scale = [Fin 4]\<rparr>
      \<lparr>n_rows = 1, n_cols = 2, rows = [[Fin 0, Fin 1]]\<rparr>))) = [Fin 4] \<and>
   mm_ScaleMax (this (state_of (mm_InverseTransform MinMaxScaler_default
      \<lparr>n_rows = 1, n_cols = 2, rows = [[Fin 0, Fin 1]]\<rparr>))) = Fin 1"
  using InverseTransform_keeps_object[of
      "\<lparr>mn_itemMean = [Fin 4], mn_itemMin = [Fin 2], mn_itemMax = [Fin 6], mn_scale = [Fin 4]\<rparr>"
      "\<lparr>n_rows = 1, n_cols = 2, rows = [[Fin 0, Fin 1]]\<rparr>" MinMaxScaler_default]
  by (simp add: mn_Scale_def mm_ScaleMax_def MinMaxScaler_default_def MinMaxScaler_new_def)

section \<open>Arithmetic within the range of \<^verbatim>\<open>double\<close>\<close>

lemma fits: "\<bar>r\<bar> \<le> 2 ^ 1023 \<Longrightarrow> \<bar>r\<bar> < dbl_overflow"
proof -
  have "(2::real) ^ 1023 < dbl_overflow" by (simp add: dbl_overflow_def)
  then show "\<bar>r\<bar> \<le> 2 ^ 1023 \<Longrightarrow> \<bar>r\<bar> < dbl_overflow" by simp
qed

lemma overflow_dbl_Fin: "\<bar>r\<bar> \<le> 2 ^ 1023 \<Longrightarrow> overflow_dbl r = Fin r"
  using fits[of r] by (auto simp: overflow_dbl_def)

lemma underflow_below_normal: "dbl_underflow < dbl_min_normal"
  by (simp add: dbl_underflow_def dbl_min_normal_def)

lemma round_dbl_Fin: "in_range r \<Longrightarrow> round_dbl r = Fin r"
proof -
  assume a: "in_range r"
  have le: "(2::real) ^ 1022 \<le> 2 ^ 1023" by simp
  show ?thesis
  proof (cases "r = 0")
    case True
    then show ?thesis by (simp add: round_dbl_def dbl_underflow_def)
  next
    case False
    then have "dbl_min_normal \<le> \<bar>r\<bar>" "\<bar>r\<bar> \<le> 2 ^ 1023"
      using a le by (auto simp: in_range_def)
    then show ?thesis
      using underflow_below_normal by (simp add: round_dbl_def overflow_dbl_Fin)
  qed
qed

lemma sum_Fin:
  assumes "\<forall>x\<in>set xs. \<bar>x\<bar> \<le> B" "\<bar>a\<bar> + real (length xs) * B \<le> 2 ^ 1023"
  shows "foldl (+) (Fin a) (map Fin xs) = Fin (a + sum_list xs)"
  using assms
proof (induction xs arbitrary: a)
  case Nil
  then show ?case by simp
next
  case (Cons x xs)
  define K :: real where "K = 2 ^ 1023"
  define n where "n = real (length xs) * B"
  have xB: "\<bar>x\<bar> \<le> B" and B0: "0 \<le> B" using Cons.prems(1) by auto
  have n0: "0 \<le> n" using B0 by (simp add: n_def)
  have len: "real (length (x # xs)) * B = B + n" by (simp add: n_def algebra_simps)
  have bound: "\<bar>a\<bar> + (B + n) \<le> K" using Cons.prems(2) unfolding len K_def .
  have "\<bar>a + x\<bar> \<le> K" using bound xB n0 by linarith
  then have step: "overflow_dbl (a + x) = Fin (a + x)" unfolding K_def by (rule overflow_dbl_Fin)
  have "\<bar>a + x\<bar> + n \<le> K" using bound xB by linarith
  then have "foldl (+) (Fin (a + x)) (map Fin xs) = Fin (a + x + sum_list xs)"
    using Cons.IH[of "a + x"] Cons.prems(1) unfolding K_def n_def by simp
  then show ?case by (simp add: step add.assoc)
qed

lemma sum_list_abs_le: "\<forall>x\<in>set xs. \<bar>x\<bar> \<le> B \<Longrightarrow> \<bar>sum_list xs\<bar> \<le> real (length xs) * (B::real)"
  by (induction xs) (auto simp: algebra_simps)

lemma sum_list_le: "\<forall>x\<in>set xs. x \<le> c \<Longrightarrow> sum_list xs \<le> real (length xs) * (c::real)"
  by (induction xs) (auto simp: algebra_simps)

lemma sum_list_ge: "\<forall>x\<in>set xs. c \<le> x \<Longrightarrow> real (length xs) * (c::real) \<le> sum_list xs"
  by (induction xs) (auto simp: algebra_simps)

lemmas dbl_eval = overflow_dbl_def round_dbl_def dbl_overflow_def dbl_underflow_def

lemma fin_val: "is_finite x \<Longrightarrow> Fin (val x) = x"
  by (cases x) simp_all

lemma fin_row: "list_all is_finite r \<Longrightarrow> map Fin (map val r) = r"
  by (induction r) (simp_all add: fin_val)

lemma scan_min: "foldl (\<lambda>m v. if dlt v m then v else m) (Fin x) (map Fin xs) = Fin (Min (set (x # xs)))"
proof (induction xs arbitrary: x)
  case Nil
  then show ?case by simp
next
  case (Cons a xs)
  have "(if dlt (Fin a) (Fin x) then Fin a else Fin x) = Fin (min x a)"
    by (simp add: min_def)
  moreover have "Min (set (min x a # xs)) = Min (set (x # a # xs))"
    by (cases "xs = []") (simp_all add: min.assoc)
  ultimately show ?case using Cons.IH[of "min x a"] by simp
qed

lemma scan_max: "foldl (\<lambda>m v. if dlt m v then v else m) (Fin x) (map Fin xs) = Fin (Max (set (x # xs)))"
proof (induction xs arbitrary: x)
  case Nil
  then show ?case by simp
next
  case (Cons a xs)
  have "(if dlt (Fin x) (Fin a) then Fin a else Fin x) = Fin (max x a)"
    by (simp add: max_def)
  moreover have "Max (set (max x a # xs)) = Max (set (x # a # xs))"
    by (cases "xs = []") (simp_all add: max.assoc)
  ultimately show ?case using Cons.IH[of "max x a"] by simp
qed

lemma row_min_Fin: "xs \<noteq> [] \<Longrightarrow> row_min (map Fin xs) = Fin (Min (set xs))"
  by (cases xs) (simp_all add: scan_min del: set_simps)

lemma row_max_Fin: "xs \<noteq> [] \<Longrightarrow> row_max (map Fin xs) = Fin (Max (set xs))"
  by (cases xs) (simp_all add: scan_max del: set_simps)

section \<open>The output of Transform, row by row\<close>

lemma stats_nth:
  assumes "n_cols X \<noteq> 0" "i < length (rows X)"
  shows "arma_min X ! i = row_min (rows X ! i)"
    and "arma_max X ! i = row_max (rows X ! i)"
    and "arma_mean X ! i = row_mean (rows X ! i)"
    and "vec_minus (arma_max X) (arma_min X) ! i = row_max (rows X ! i) - row_min (rows X ! i)"
  using assms by (simp_all add: arma_min_def arma_max_def arma_mean_def vec_minus_def)

lemma mn_scale_nth:
  assumes "n_cols X \<noteq> 0" "i < length (rows X)"
  shows "map handle_zero (vec_minus (arma_max X) (arma_min X)) ! i = spec_mn_scale (rows X ! i)"
  using assms stats_nth(4)[OF assms]
  by (simp add: stats_length spec_mn_scale_def handle_zero_def)

lemma mm_scale_nth:
  assumes "n_cols X \<noteq> 0" "i < length (rows X)"
  shows "map handle_zero (scalar_div_vec (hi - lo) (vec_minus (arma_max X) (arma_min X))) ! i =
     spec_mm_scale lo hi (rows X ! i)"
  using assms stats_nth(4)[OF assms]
  by (simp add: stats_length scalar_div_vec_def spec_mm_scale_def handle_zero_def)

lemma wf_row_length: "wf_mat X \<Longrightarrow> i < n_rows X \<Longrightarrow> length (rows X ! i) = n_cols X"
  by (simp add: wf_mat_def list_all_length)

lemma index_rows_eq:
  assumes wf: "wf_mat X"
    and cell: "\<And>i j. i < n_rows X \<Longrightarrow> j < n_cols X \<Longrightarrow> G i j = f (rows X ! i) (rows X ! i ! j)"
  shows "map (\<lambda>i. map (G i) [0..<n_cols X]) [0..<n_rows X] = map (\<lambda>r. map (f r) r) (rows X)"
proof (rule nth_equalityI)
  show "length (map (\<lambda>i. map (G i) [0..<n_cols X]) [0..<n_rows X]) = length (map (\<lambda>r. map (f r) r) (rows X))"
    using wf by (simp add: wf_mat_def)
next
  fix i assume "i < length (map (\<lambda>i. map (G i) [0..<n_cols X]) [0..<n_rows X])"
  then have i: "i < n_rows X" by simp
  then have len: "length (rows X ! i) = n_cols X" "i < length (rows X)"
    using wf wf_row_length[OF wf i] by (simp_all add: wf_mat_def)
  have "map (G i) [0..<n_cols X] = map (f (rows X ! i)) (rows X ! i)"
    using cell[OF i] len by (auto intro: nth_equalityI)
  then show "map (\<lambda>i. map (G i) [0..<n_cols X]) [0..<n_rows X] ! i = map (\<lambda>r. map (f r) r) (rows X) ! i"
    using i len by simp
qed

lemma mn_Transform_out:
  assumes "wf_mat input"
  shows "mn_Transform s input =
     Normal \<lparr>this = \<lparr>mn_itemMean = arma_mean input, mn_itemMin = arma_min input,
                      mn_itemMax = arma_max input,
                      mn_scale = map handle_zero (vec_minus (arma_max input) (arma_min input))\<rparr>,
             out_mat = spec_mn_Transform input\<rparr>"
proof -
  have "map (\<lambda>i. map (\<lambda>j. (mat_at input i j - arma_mean input ! i) /
                         map handle_zero (vec_minus (arma_max input) (arma_min input)) ! i)
                         [0..<n_cols input]) [0..<n_rows input]
        = map (\<lambda>r. map (\<lambda>x. (x - row_mean r) / spec_mn_scale r) r) (rows input)"
  proof (rule index_rows_eq[OF assms])
    fix i j assume "i < n_rows input" "j < n_cols input"
    then have "n_cols input \<noteq> 0" "i < length (rows input)"
      using assms by (simp_all add: wf_mat_def)
    then show "(mat_at input i j - arma_mean input ! i) /
          map handle_zero (vec_minus (arma_max input) (arma_min input)) ! i =
          (rows input ! i ! j - row_mean (rows input ! i)) / spec_mn_scale (rows input ! i)"
      by (simp add: mn_scale_nth stats_nth mat_at_def)
  qed
  then show ?thesis
    using mn_Transform_index[OF assms, of s]
    by (simp add: spec_mn_Transform_def spec_mn_row_def)
qed

lemma mm_Transform_out:
  assumes "wf_mat input"
  shows "mm_Transform s input =
     Normal \<lparr>this = \<lparr>mm_itemMin = arma_min input, mm_itemMax = arma_max input,
                      mm_scale = map handle_zero (scalar_div_vec (mm_scalemax s - mm_scalemin s)
                                   (vec_minus (arma_max input) (arma_min input))),
                      mm_scalemin = mm_scalemin s, mm_scalemax = mm_scalemax s\<rparr>,
             out_mat = spec_mm_Transform (mm_scalemin s) (mm_scalemax s) input\<rparr>"
proof -
  define lo hi where "lo = mm_scalemin s" and "hi = mm_scalemax s"
  have "map (\<lambda>i. map (\<lambda>j.
                   map handle_zero (scalar_div_vec (hi - lo)
                                   (vec_minus (arma_max input) (arma_min input))) ! i * mat_at input i j
                   + lo
                   - arma_min input ! i *
                     map handle_zero (scalar_div_vec (hi - lo)
                                   (vec_minus (arma_max input) (arma_min input))) ! i)
                         [0..<n_cols input]) [0..<n_rows input]
        = map (\<lambda>r. map (\<lambda>x. spec_mm_scale lo hi r * x + lo - row_min r * spec_mm_scale lo hi r) r)
            (rows input)"
  proof (rule index_rows_eq[OF assms])
    fix i j assume "i < n_rows input" "j < n_cols input"
    then have "n_cols input \<noteq> 0" "i < length (rows input)"
      using assms by (simp_all add: wf_mat_def)
    then show "map handle_zero (scalar_div_vec (hi - lo)
                  (vec_minus (arma_max input) (arma_min input))) ! i * mat_at input i j + lo
          - arma_min input ! i * map handle_zero (scalar_div_vec (hi - lo)
                  (vec_minus (arma_max input) (arma_min input))) ! i =
          spec_mm_scale lo hi (rows input ! i) * (rows input ! i ! j) + lo
          - row_min (rows input ! i) * spec_mm_scale lo hi (rows input ! i)"
      by (simp add: mm_scale_nth stats_nth mat_at_def)
  qed
  then show ?thesis
    using mm_Transform_index[OF assms, of s]
    by (simp add: spec_mm_Transform_def spec_mm_row_def lo_def hi_def)
qed

section \<open>The transforms compute what is specified\<close>

text \<open>
  C4. On a well-formed matrix \<^verbatim>\<open>MeanNormalization::Transform\<close> returns, and its output
  is the matrix that the specification describes: in each feature row, an entry \<open>x\<close>
  becomes \<open>(x - mean) / scale\<close>, with the mean the average of the row and the scale the
  maximum minus the minimum of the row, replaced by 1 if it is zero. In particular the
  row \<open>[2, 4, 6]\<close> becomes \<open>[-0.5, 0, 0.5]\<close>.
\<close>

theorem mn_Transform_refines_spec:
  assumes "wf_mat input"
  shows "is_normal (mn_Transform s input) \<and>
         out_mat (state_of (mn_Transform s input)) = spec_mn_Transform input \<and>
         out_mat (state_of (mn_Transform s
            \<lparr>n_rows = 1, n_cols = 3, rows = [[Fin 2, Fin 4, Fin 6]]\<rparr>)) =
            \<lparr>n_rows = 1, n_cols = 3, rows = [[Fin (- (1 / 2)), Fin 0, Fin (1 / 2)]]\<rparr>"
proof -
  have wf: "wf_mat \<lparr>n_rows = 1, n_cols = 3, rows = [[Fin 2, Fin 4, Fin 6]]\<rparr>"
    by (simp add: wf_mat_def)
  have ex: "spec_mn_Transform \<lparr>n_rows = 1, n_cols = 3, rows = [[Fin 2, Fin 4, Fin 6]]\<rparr> =
            \<lparr>n_rows = 1, n_cols = 3, rows = [[Fin (- (1 / 2)), Fin 0, Fin (1 / 2)]]\<rparr>"
    by (simp add: spec_mn_Transform_def spec_mn_row_def spec_mn_scale_def row_mean_def dbl_eval)
  show ?thesis
    using mn_Transform_out[OF assms, of s] mn_Transform_out[OF wf, of s] ex by simp
qed

theorem mn_Transform_refines_spec_witness:
  "wf_mat \<lparr>n_rows = 2, n_cols = 3, rows = [[Fin 2, Fin 4, Fin 6], [Fin 1, Fin 1, Fin 3]]\<rparr> \<and>
   out_mat (state_of (mn_Transform MeanNormalization_new
     \<lparr>n_rows = 2, n_cols = 3, rows = [[Fin 2, Fin 4, Fin 6], [Fin 1, Fin 1, Fin 3]]\<rparr>)) =
     \<lparr>n_rows = 2, n_cols = 3,
      rows = [[Fin (- (1 / 2)), Fin 0, Fin (1 / 2)], [Fin (- (1 / 3)), Fin (- (1 / 3)), Fin (2 / 3)]]\<rparr>"
proof -
  have wf: "wf_mat \<lparr>n_rows = 2, n_cols = 3, rows = [[Fin 2, Fin 4, Fin 6], [Fin 1, Fin 1, Fin 3]]\<rparr>"
    by (simp add: wf_mat_def)
  have ev: "spec_mn_Transform
      \<lparr>n_rows = 2, n_cols = 3, rows = [[Fin 2, Fin 4, Fin 6], [Fin 1, Fin 1, Fin 3]]\<rparr> =
     \<lparr>n_rows = 2, n_cols = 3,
      rows = [[Fin (- (1 / 2)), Fin 0, Fin (1 / 2)], [Fin (- (1 / 3)), Fin (- (1 / 3)), Fin (2 / 3)]]\<rparr>"
    by (simp add: spec_mn_Transform_def spec_mn_row_def spec_mn_scale_def spec_mm_Transform_def
        spec_mm_row_def spec_mm_scale_def row_mean_def dbl_eval)
  show ?thesis
    using mn_Transform_refines_spec[OF wf, of MeanNormalization_new] wf ev by simp
qed

text \<open>
  C3. On a well-formed matrix \<^verbatim>\<open>MinMaxScaler::Transform\<close> returns, and its output is
  the matrix that the specification describes: in each feature row, with
  \<open>scale = (scalemax - scalemin) / (max - min)\<close>, a zero entry of the scale vector forced
  to 1, an entry \<open>x\<close> becomes \<open>scale * x + scalemin - min * scale\<close>. In particular, with
  the default range, the row \<open>[2, 4, 6]\<close> becomes \<open>[0, 0.5, 1]\<close>.
\<close>

theorem mm_Transform_refines_spec:
  assumes "wf_mat input"
  shows "is_normal (mm_Transform s input) \<and>
         out_mat (state_of (mm_Transform s input)) =
           spec_mm_Transform (mm_scalemin s) (mm_scalemax s) input \<and>
         out_mat (state_of (mm_Transform MinMaxScaler_default
            \<lparr>n_rows = 1, n_cols = 3, rows = [[Fin 2, Fin 4, Fin 6]]\<rparr>)) =
            \<lparr>n_rows = 1, n_cols = 3, rows = [[Fin 0, Fin (1 / 2), Fin 1]]\<rparr>"
proof -
  have wf: "wf_mat \<lparr>n_rows = 1, n_cols = 3, rows = [[Fin 2, Fin 4, Fin 6]]\<rparr>"
    by (simp add: wf_mat_def)
  have ex: "spec_mm_Transform (Fin 0) (Fin 1)
      \<lparr>n_rows = 1, n_cols = 3, rows = [[Fin 2, Fin 4, Fin 6]]\<rparr> =
            \<lparr>n_rows = 1, n_cols = 3, rows = [[Fin 0, Fin (1 / 2), Fin 1]]\<rparr>"
    by (simp add: spec_mn_Transform_def spec_mn_row_def spec_mn_scale_def spec_mm_Transform_def
        spec_mm_row_def spec_mm_scale_def row_mean_def dbl_eval)
  show ?thesis
    using mm_Transform_out[OF assms, of s] mm_Transform_out[OF wf, of MinMaxScaler_default] ex
    by (simp add: MinMaxScaler_default_def MinMaxScaler_new_def)
qed

theorem mm_Transform_refines_spec_witness:
  "wf_mat \<lparr>n_rows = 2, n_cols = 3, rows = [[Fin 2, Fin 4, Fin 6], [Fin 1, Fin 1, Fin 3]]\<rparr> \<and>
   out_mat (state_of (mm_Transform (MinMaxScaler_new (Fin (- 1)) (Fin 1))
     \<lparr>n_rows = 2, n_cols = 3, rows = [[Fin 2, Fin 4, Fin 6], [Fin 1, Fin 1, Fin 3]]\<rparr>)) =
     \<lparr>n_rows = 2, n_cols = 3,
      rows = [[Fin (- 1), Fin 0, Fin 1], [Fin (- 1), Fin (- 1), Fin 1]]\<rparr>"
proof -
  have wf: "wf_mat \<lparr>n_rows = 2, n_cols = 3, rows = [[Fin 2, Fin 4, Fin 6], [Fin 1, Fin 1, Fin 3]]\<rparr>"
    by (simp add: wf_mat_def)
  have ev: "spec_mm_Transform (Fin (- 1)) (Fin 1)
      \<lparr>n_rows = 2, n_cols = 3, rows = [[Fin 2, Fin 4, Fin 6], [Fin 1, Fin 1, Fin 3]]\<rparr> =
     \<lparr>n_rows = 2, n_cols = 3,
      rows = [[Fin (- 1), Fin 0, Fin 1], [Fin (- 1), Fin (- 1), Fin 1]]\<rparr>"
    by (simp add: spec_mn_Transform_def spec_mn_row_def spec_mn_scale_def spec_mm_Transform_def
        spec_mm_row_def spec_mm_scale_def row_mean_def dbl_eval)
  show ?thesis
    using mm_Transform_refines_spec[OF wf, of "MinMaxScaler_new (Fin (- 1)) (Fin 1)"] wf ev
    by (simp add: MinMaxScaler_new_def)
qed

text \<open>
  C9. After \<^verbatim>\<open>Transform\<close> on a well-formed matrix the accessors return the statistics
  of that input (the row means, minima and maxima and the scale vector with its zeroes
  handled), and every output entry is the value of the transform's formula at the
  vectors that the accessors return.
\<close>

theorem accessors_after_Transform:
  assumes "wf_mat input"
  shows "mn_ItemMean (this (state_of (mn_Transform s input))) = arma_mean input \<and>
         mn_ItemMin (this (state_of (mn_Transform s input))) = arma_min input \<and>
         mn_ItemMax (this (state_of (mn_Transform s input))) = arma_max input \<and>
         mn_Scale (this (state_of (mn_Transform s input))) =
           map handle_zero (vec_minus (arma_max input) (arma_min input)) \<and>
         (\<forall>i<n_rows input. \<forall>j<n_cols input.
            mat_at (out_mat (state_of (mn_Transform s input))) i j =
              (mat_at input i j - mn_ItemMean (this (state_of (mn_Transform s input))) ! i) /
                mn_Scale (this (state_of (mn_Transform s input))) ! i) \<and>
         mm_ItemMin (this (state_of (mm_Transform t input))) = arma_min input \<and>
         mm_ItemMax (this (state_of (mm_Transform t input))) = arma_max input \<and>
         mm_Scale (this (state_of (mm_Transform t input))) =
           map handle_zero (scalar_div_vec (mm_ScaleMax t - mm_ScaleMin t)
             (vec_minus (arma_max input) (arma_min input))) \<and>
         (\<forall>i<n_rows input. \<forall>j<n_cols input.
            mat_at (out_mat (state_of (mm_Transform t input))) i j =
              mm_Scale (this (state_of (mm_Transform t input))) ! i * mat_at input i j
              + mm_ScaleMin (this (state_of (mm_Transform t input)))
              - mm_ItemMin (this (state_of (mm_Transform t input))) ! i *
                mm_Scale (this (state_of (mm_Transform t input))) ! i)"
  using mn_Transform_index[OF assms, of s] mm_Transform_index[OF assms, of t]
  by (simp add: mn_ItemMean_def mn_ItemMin_def mn_ItemMax_def mn_Scale_def
      mm_ItemMin_def mm_ItemMax_def mm_Scale_def mm_ScaleMin_def mm_ScaleMax_def mat_at_def)

theorem accessors_after_Transform_witness:
  "wf_mat \<lparr>n_rows = 1, n_cols = 3, rows = [[Fin 2, Fin 4, Fin 6]]\<rparr> \<and>
   mn_ItemMean (this (state_of (mn_Transform MeanNormalization_new
      \<lparr>n_rows = 1, n_cols = 3, rows = [[Fin 2, Fin 4, Fin 6]]\<rparr>))) = [Fin 4] \<and>
   mm_Scale (this (state_of (mm_Transform MinMaxScaler_default
      \<lparr>n_rows = 1, n_cols = 3, rows = [[Fin 2, Fin 4, Fin 6]]\<rparr>))) = [Fin (1 / 4)]"
proof -
  have wf: "wf_mat \<lparr>n_rows = 1, n_cols = 3, rows = [[Fin 2, Fin 4, Fin 6]]\<rparr>"
    by (simp add: wf_mat_def)
  have mean: "arma_mean \<lparr>n_rows = 1, n_cols = 3, rows = [[Fin 2, Fin 4, Fin 6]]\<rparr> = [Fin 4]"
    by (simp add: arma_mean_def row_mean_def dbl_eval)
  have sc: "map handle_zero (scalar_div_vec (mm_ScaleMax MinMaxScaler_default - mm_ScaleMin MinMaxScaler_default)
      (vec_minus (arma_max \<lparr>n_rows = 1, n_cols = 3, rows = [[Fin 2, Fin 4, Fin 6]]\<rparr>)
                 (arma_min
                     \<lparr>n_rows = 1, n_cols = 3, rows = [[Fin 2, Fin 4, Fin 6]]\<rparr>))) = [Fin (1 / 4)]"
    by (simp add: arma_min_def arma_max_def vec_minus_def scalar_div_vec_def handle_zero_def
        mm_ScaleMax_def mm_ScaleMin_def MinMaxScaler_default_def MinMaxScaler_new_def dbl_eval)
  show ?thesis
    using accessors_after_Transform[OF wf, of MeanNormalization_new MinMaxScaler_default] wf mean sc
    by simp
qed

section \<open>A row of MeanNormalization without overflow or underflow\<close>

lemma bounded_row:
  assumes "list_all (magnitude_le B) r"
  shows "r = map Fin (map val r)" and "\<forall>x\<in>set (map val r). \<bar>x\<bar> \<le> B"
proof -
  have "list_all is_finite r" using assms by (simp add: list_all_iff magnitude_le_def)
  then show "r = map Fin (map val r)" using fin_row[of r] by simp
  show "\<forall>x\<in>set (map val r). \<bar>x\<bar> \<le> B"
    using assms by (auto simp: list_all_iff magnitude_le_def)
qed

lemma real_mean_between:
  assumes "xs \<noteq> []"
  shows "Min (set xs) \<le> real_mean xs" and "real_mean xs \<le> Max (set xs)"
proof -
  have n: "0 < real (length xs)" using assms by simp
  have "real (length xs) * Min (set xs) \<le> sum_list xs"
    by (rule sum_list_ge) simp
  then show "Min (set xs) \<le> real_mean xs"
    using n by (simp add: real_mean_def pos_le_divide_eq mult.commute)
  have "sum_list xs \<le> real (length xs) * Max (set xs)"
    by (rule sum_list_le) simp
  then show "real_mean xs \<le> Max (set xs)"
    using n by (simp add: real_mean_def pos_divide_le_eq mult.commute)
qed

lemma mn_row_forward:
  assumes ok: "mn_Transform_in_range r"
  defines "xs \<equiv> map val r"
  defines "m \<equiv> real_mean xs"
  defines "c \<equiv> real_scale xs"
  shows "row_mean r = Fin m"
    and "spec_mn_scale r = Fin c"
    and "c \<noteq> 0"
    and "spec_mn_row r = map Fin (map (\<lambda>x. (x - m) / c) xs)"
    and "\<forall>x\<in>set xs. \<bar>(x - m) / c\<bar> \<le> 1"
    and "\<forall>x\<in>set xs. \<bar>x\<bar> \<le> 2 ^ 959"
proof -
  define B :: real where "B = 2 ^ 959"
  define K :: real where "K = 2 ^ 1023"
  define n where "n = real (length xs)"
  have BK: "2 ^ 64 * B = K" "2 * B \<le> K" "0 \<le> B"
    by (simp_all add: B_def K_def)
  have ne: "r \<noteq> []" "xs \<noteq> []" and nle: "n \<le> 2 ^ 64"
    using ok by (simp_all add: mn_Transform_in_range_def xs_def n_def)
  have n0: "0 < n" using ne by (simp add: n_def)
  have mag: "list_all (magnitude_le B) r"
    using ok by (simp add: mn_Transform_in_range_def B_def)
  have r: "r = map Fin xs" and xB: "\<forall>x\<in>set xs. \<bar>x\<bar> \<le> B"
    using bounded_row[OF mag] by (simp_all add: xs_def)
  show "\<forall>x\<in>set xs. \<bar>x\<bar> \<le> 2 ^ 959" using xB by (simp add: B_def)
  have inm: "in_range m"
    using ok by (simp add: mn_Transform_in_range_def m_def xs_def)
  have inq: "\<forall>x\<in>set xs. in_range ((x - m) / c)"
    using ok by (simp add: mn_Transform_in_range_def m_def c_def xs_def list_all_iff)
  have "n * B \<le> 2 ^ 64 * B" using nle BK(3) by (rule mult_right_mono)
  then have nB: "n * B \<le> K" using BK(1) by simp
  have S: "\<bar>sum_list xs\<bar> \<le> n * B"
    using sum_list_abs_le[OF xB] by (simp add: n_def)
  have "foldl (+) (Fin 0) (map Fin xs) = Fin (0 + sum_list xs)"
    by (rule sum_Fin[OF xB]) (use nB in \<open>simp add: n_def K_def\<close>)
  moreover have "row_mean r = foldl (+) (Fin 0) (map Fin xs) / Fin (real (length (map Fin xs)))"
    by (subst r) (simp only: row_mean_def)
  ultimately have "row_mean r = Fin (sum_list xs) / Fin n"
    by (simp add: n_def)
  also have "\<dots> = round_dbl m"
    using n0 by (simp add: m_def real_mean_def n_def)
  finally show mean: "row_mean r = Fin m"
    using inm by (simp add: round_dbl_Fin)
  have "\<bar>m\<bar> * n = \<bar>sum_list xs\<bar>"
    using n0 by (simp add: m_def real_mean_def n_def abs_divide)
  then have "\<bar>m\<bar> * n \<le> B * n" using S by (simp add: mult.commute)
  then have mB: "\<bar>m\<bar> \<le> B" using n0 by simp
  define mn mx where "mn = Min (set xs)" and "mx = Max (set xs)"
  have mnx: "mn \<in> set xs" "mx \<in> set xs"
    using ne by (simp_all add: mn_def mx_def)
  have stats: "row_min r = Fin mn" "row_max r = Fin mx"
    using row_min_Fin[OF ne(2)] row_max_Fin[OF ne(2)] r by (simp_all add: mn_def mx_def)
  have "\<bar>mx\<bar> \<le> B" "\<bar>mn\<bar> \<le> B" using xB mnx by blast+
  then have "\<bar>mx - mn\<bar> \<le> K" using BK(2) by linarith
  then have diff: "overflow_dbl (mx - mn) = Fin (mx - mn)"
    by (simp add: overflow_dbl_Fin K_def)
  have "spec_mn_scale r = (if mx = mn then Fin 1 else Fin (mx - mn))"
    by (simp add: spec_mn_scale_def stats diff)
  then show sc: "spec_mn_scale r = Fin c"
    by (simp add: c_def real_scale_def mn_def mx_def)
  show c0: "c \<noteq> 0"
    by (simp add: c_def real_scale_def)
  have cell: "(Fin x - Fin m) / Fin c = Fin ((x - m) / c)" if "x \<in> set xs" for x
  proof -
    have "\<bar>x\<bar> \<le> B" using xB that by blast
    then have "\<bar>x - m\<bar> \<le> K" using mB BK(2) by linarith
    then have "overflow_dbl (x - m) = Fin (x - m)" by (simp add: overflow_dbl_Fin K_def)
    then show ?thesis using c0 inq that by (simp add: round_dbl_Fin)
  qed
  have "spec_mn_row r = map (\<lambda>x. (x - Fin m) / Fin c) r"
    by (simp add: spec_mn_row_def mean sc)
  also have "\<dots> = map (\<lambda>x. (x - Fin m) / Fin c) (map Fin xs)"
    using r by simp
  also have "\<dots> = map Fin (map (\<lambda>x. (x - m) / c) xs)"
    using cell by simp
  finally show "spec_mn_row r = map Fin (map (\<lambda>x. (x - m) / c) xs)" .
  show "\<forall>x\<in>set xs. \<bar>(x - m) / c\<bar> \<le> 1"
  proof
    fix x assume x: "x \<in> set xs"
    have bx: "mn \<le> x" "x \<le> mx" using x by (simp_all add: mn_def mx_def)
    have bm: "mn \<le> m" "m \<le> mx"
      using real_mean_between[OF ne(2)] by (simp_all add: m_def mn_def mx_def)
    show "\<bar>(x - m) / c\<bar> \<le> 1"
    proof (cases "mx = mn")
      case True
      then have "x = m" using bx bm by simp
      then show ?thesis by simp
    next
      case False
      then have "c = mx - mn" "0 < mx - mn"
        using bx by (simp_all add: c_def real_scale_def mn_def mx_def)
      moreover have "\<bar>x - m\<bar> \<le> mx - mn" using bx bm by linarith
      ultimately show ?thesis by (simp add: abs_divide)
    qed
  qed
qed





section \<open>A row of MinMaxScaler without overflow or underflow\<close>






section \<open>Round trip\<close>







section \<open>Centering and range\<close>









section \<open>Features of zero range\<close>

text \<open>
  What holds of the scale vector and of constant rows: a stored scale entry is never
  zero, and \<^verbatim>\<open>MeanNormalization\<close> gives a feature of zero range the scale 1 and an
  all-zero output row.
\<close>

lemma handle_zero_nonzero: "\<not> deq (handle_zero d) (Fin 0)"
  by (simp add: handle_zero_def)

lemma mn_scale_no_zero:
  "wf_mat input \<Longrightarrow> \<forall>d\<in>set (mn_Scale (this (state_of (mn_Transform s input)))). \<not> deq d (Fin 0)"
  using mn_Transform_out[of input s] by (auto simp: mn_Scale_def handle_zero_nonzero)

lemma mm_scale_no_zero:
  "wf_mat input \<Longrightarrow> \<forall>d\<in>set (mm_Scale (this (state_of (mm_Transform t input)))). \<not> deq d (Fin 0)"
  using mm_Transform_out[of input t] by (auto simp: mm_Scale_def handle_zero_nonzero)

lemma mn_zero_range_row:
  assumes ok: "mn_Transform_in_range r" and eq: "deq (row_min r) (row_max r)"
  shows "spec_mn_scale r = Fin 1" and "\<forall>e\<in>set (spec_mn_row r). e = Fin 0"
proof -
  define xs where "xs = map val r"
  define m where "m = real_mean xs"
  define c where "c = real_scale xs"
  note fw = mn_row_forward[OF ok, folded xs_def, folded m_def c_def]
  have mag: "list_all (magnitude_le (2 ^ 959)) r" and ne: "xs \<noteq> []"
    using ok by (simp_all add: mn_Transform_in_range_def xs_def)
  have r: "r = map Fin xs" using bounded_row(1)[OF mag] by (simp add: xs_def)
  have stats: "row_min r = Fin (Min (set xs))" "row_max r = Fin (Max (set xs))"
    using row_min_Fin[OF ne] row_max_Fin[OF ne] r by simp_all
  have same: "Max (set xs) = Min (set xs)" using eq by (simp add: stats)
  then have c1: "c = 1" by (simp add: c_def real_scale_def)
  show "spec_mn_scale r = Fin 1" using fw(2) c1 by simp
  have all: "x = m" if "x \<in> set xs" for x
  proof -
    have "Min (set xs) \<le> x" "x \<le> Max (set xs)" using that by simp_all
    moreover have "Min (set xs) \<le> m" "m \<le> Max (set xs)"
      using real_mean_between[OF ne] by (simp_all add: m_def)
    ultimately show ?thesis using same by linarith
  qed
  show "\<forall>e\<in>set (spec_mn_row r). e = Fin 0"
    using all by (auto simp: fw(4))
qed

lemma mn_Transform_constant_row:
  "mn_Transform MeanNormalization_new \<lparr>n_rows = 1, n_cols = 3, rows = [[Fin 5, Fin 5, Fin 5]]\<rparr> =
     Normal \<lparr>this = \<lparr>mn_itemMean = [Fin 5], mn_itemMin = [Fin 5], mn_itemMax = [Fin 5],
                      mn_scale = [Fin 1]\<rparr>,
             out_mat = \<lparr>n_rows = 1, n_cols = 3, rows = [[Fin 0, Fin 0, Fin 0]]\<rparr>\<rparr>"
proof -
  have wf: "wf_mat \<lparr>n_rows = 1, n_cols = 3, rows = [[Fin 5, Fin 5, Fin 5]]\<rparr>"
    by (simp add: wf_mat_def)
  show ?thesis
    using mn_Transform_out[OF wf, of MeanNormalization_new]
    by (simp add: arma_mean_def arma_min_def arma_max_def vec_minus_def handle_zero_def row_mean_def
        spec_mn_Transform_def spec_mn_row_def spec_mn_scale_def dbl_eval)
qed

text \<open>
  C5. A \<^verbatim>\<open>MinMaxScaler\<close> with the default range \<open>[0, 1]\<close> on the constant row
  \<open>[5, 5, 5]\<close>: the scale is computed as \<open>1 / 0\<close>, which is an infinity and not zero, so
  the loop that handles zeroes leaves it, and every output entry is
  \<open>\<infinity> * 5 + 0 - 5 * \<infinity>\<close>, a NaN, where the specification has the scale forced to 1 and the
  entries 0.
\<close>

theorem mm_Transform_constant_row:
  "mm_Transform MinMaxScaler_default \<lparr>n_rows = 1, n_cols = 3, rows = [[Fin 5, Fin 5, Fin 5]]\<rparr> =
     Normal \<lparr>this = \<lparr>mm_itemMin = [Fin 5], mm_itemMax = [Fin 5], mm_scale = [PInf],
                      mm_scalemin = Fin 0, mm_scalemax = Fin 1\<rparr>,
             out_mat = \<lparr>n_rows = 1, n_cols = 3, rows = [[NaN, NaN, NaN]]\<rparr>\<rparr>"
proof -
  have wf: "wf_mat \<lparr>n_rows = 1, n_cols = 3, rows = [[Fin 5, Fin 5, Fin 5]]\<rparr>"
    by (simp add: wf_mat_def)
  show ?thesis
    using mm_Transform_out[OF wf, of MinMaxScaler_default]
    by (simp add: MinMaxScaler_default_def MinMaxScaler_new_def
        arma_min_def arma_max_def vec_minus_def scalar_div_vec_def handle_zero_def
        spec_mm_Transform_def spec_mm_row_def spec_mm_scale_def dbl_eval)
qed

text \<open>
  C6. After \<^verbatim>\<open>Transform\<close> of a \<^verbatim>\<open>MinMaxScaler\<close> with the default range on a matrix
  whose second feature is constant, the scale entry of that feature is an infinity: it
  has not been replaced by 1, and the division that computed it had a zero divisor.
\<close>

theorem mm_Scale_constant_feature:
  "mm_Scale (this (state_of (mm_Transform MinMaxScaler_default
      \<lparr>n_rows = 2, n_cols = 3, rows = [[Fin 1, Fin 2, Fin 3], [Fin 7, Fin 7, Fin 7]]\<rparr>))) =
     [Fin (1 / 2), PInf] \<and>
   vec_minus (arma_max \<lparr>n_rows = 2, n_cols = 3, rows = [[Fin 1, Fin 2, Fin 3], [Fin 7, Fin 7, Fin 7]]\<rparr>)
             (arma_min \<lparr>n_rows = 2, n_cols = 3, rows = [[Fin 1, Fin 2, Fin 3], [Fin 7, Fin 7, Fin 7]]\<rparr>) =
     [Fin 2, Fin 0]"
proof -
  have wf: "wf_mat \<lparr>n_rows = 2, n_cols = 3, rows = [[Fin 1, Fin 2, Fin 3], [Fin 7, Fin 7, Fin 7]]\<rparr>"
    by (simp add: wf_mat_def)
  show ?thesis
    using mm_Transform_out[OF wf, of MinMaxScaler_default]
    by (simp add: mm_Scale_def MinMaxScaler_default_def MinMaxScaler_new_def
        arma_min_def arma_max_def vec_minus_def scalar_div_vec_def handle_zero_def dbl_eval)
qed

end
